theory Spec2Isabelle
  imports Complex_Main
begin

section \<open>Python values shared by the modules\<close>

text \<open>
  The result of \<^verbatim>\<open>json.loads\<close>: the JSON parser itself is library code, so a text is
  modelled by the value it parses to. Numbers are integers (floats are outside the model);
  an object is the association list of a parsed dict, so its keys are distinct. Python
  strings are lists of characters.
\<close>

datatype json =
    JNull
  | JBool bool
  | JNum int
  | JStr string
  | JArr "json list"
  | JObj "(string \<times> json) list"

datatype py_error =
    JSONDecodeError
  | AttributeError
  | TypeError
  | IndexError
  | NameError

text \<open>Python truth value, as tested by \<^verbatim>\<open>not x\<close> and \<^verbatim>\<open>if x:\<close>.\<close>

fun truthy :: "json \<Rightarrow> bool" where
  "truthy JNull = False"
| "truthy (JBool b) = b"
| "truthy (JNum n) = (n \<noteq> 0)"
| "truthy (JStr s) = (s \<noteq> [])"
| "truthy (JArr xs) = (xs \<noteq> [])"
| "truthy (JObj d) = (d \<noteq> [])"

text \<open>\<^verbatim>\<open>d.get(k, default)\<close> on a dict.\<close>

definition dict_get :: "(string \<times> json) list \<Rightarrow> string \<Rightarrow> json \<Rightarrow> json" where
  "dict_get d k dflt = (case map_of d k of None \<Rightarrow> dflt | Some v \<Rightarrow> v)"

text \<open>
  \<^verbatim>\<open>x.get(k, default)\<close> on any parsed value: only a dict has the method, every other
  value raises AttributeError.
\<close>

fun json_get :: "json \<Rightarrow> string \<Rightarrow> json \<Rightarrow> py_error + json" where
  "json_get (JObj d) k dflt = Inr (dict_get d k dflt)"
| "json_get _ k dflt = Inl AttributeError"

text \<open>
  \<^verbatim>\<open>f"{x}"\<close>: a string is inserted as it is. What \<^verbatim>\<open>str()\<close> prints for the other
  values is a parameter \<open>repr\<close> of the model.
\<close>

fun py_str :: "(json \<Rightarrow> string) \<Rightarrow> json \<Rightarrow> string" where
  "py_str repr (JStr s) = s"
| "py_str repr v = repr v"

text \<open>\<^verbatim>\<open>x[:200]\<close>: strings and lists can be sliced, anything else raises TypeError.\<close>

fun slice200 :: "json \<Rightarrow> py_error + json" where
  "slice200 (JStr s) = Inr (JStr (take 200 s))"
| "slice200 (JArr xs) = Inr (JArr (take 200 xs))"
| "slice200 _ = Inl TypeError"

text \<open>An integer as Python's comparison and \<^verbatim>\<open>range\<close> accept it (bool is a subclass of int).\<close>

fun as_int :: "json \<Rightarrow> int option" where
  "as_int (JNum n) = Some n"
| "as_int (JBool b) = Some (if b then 1 else 0)"
| "as_int _ = None"

section \<open>The checkpointed indexer (src/vector\_store.py of the package)\<close>

text \<open>
  A checkpoint file is absent, present but not readable, or holds a text that
  \<^verbatim>\<open>json.load\<close> parses (\<open>Some\<close>) or rejects (\<open>None\<close>).
\<close>

datatype cp_file = Absent | Unreadable | Content "json option"

record upsert_call =
  call_documents :: "string list"
  call_metadatas :: "(string \<times> json) list list"
  call_ids :: "json list"

text \<open>
  The world the indexer acts on. A metadata file is the list of its lines, each given by
  what \<^verbatim>\<open>json.loads\<close> makes of it (\<open>None\<close>: JSONDecodeError); \<open>stores w p = None\<close> when no
  file exists at \<open>p\<close>. The collection is the external index: it records every upsert call it
  receives and maps each id to the document and metadata last stored under it; like the
  mocked collection of the tests it accepts every call. \<open>cp_writable\<close> tells whether
  opening a checkpoint file for writing succeeds. \<open>client_calls\<close> records the calls made
  on the database client.
\<close>

datatype client_call = DeleteCollection string | GetOrCreateCollection string

record world =
  stores :: "string \<Rightarrow> json option list option"
  checkpoints :: "string \<Rightarrow> cp_file"
  cp_writable :: bool
  collection :: "json \<Rightarrow> (string \<times> (string \<times> json) list) option"
  upsert_calls :: "upsert_call list"
  client_calls :: "client_call list"

definition get_checkpoint_path :: "string \<Rightarrow> string" where
  "get_checkpoint_path metadata_file = metadata_file @ ''.checkpoint''"

text \<open>
  \<^verbatim>\<open>_load_checkpoint\<close>: every exception inside the \<^verbatim>\<open>try\<close> (open fails, the text is not
  JSON, the value has no \<^verbatim>\<open>get\<close>) is printed and falls through to \<^verbatim>\<open>return 0\<close>.
\<close>

fun load_checkpoint :: "cp_file \<Rightarrow> json" where
  "load_checkpoint Absent = JNum 0"
| "load_checkpoint Unreadable = JNum 0"
| "load_checkpoint (Content None) = JNum 0"
| "load_checkpoint (Content (Some data)) =
     (case json_get data ''processed_lines'' (JNum 0) of
        Inl e \<Rightarrow> JNum 0
      | Inr v \<Rightarrow> v)"

text \<open>\<^verbatim>\<open>_save_checkpoint\<close>: a failure to open the file is printed and changes nothing.\<close>

definition save_checkpoint :: "string \<Rightarrow> int \<Rightarrow> world \<Rightarrow> world" where
  "save_checkpoint checkpoint_path lines_processed w =
     (if cp_writable w
      then w\<lparr>checkpoints := (checkpoints w)
               (checkpoint_path := Content (Some (JObj [(''processed_lines'', JNum lines_processed)])))\<rparr>
      else w)"

record entry =
  entry_id :: json
  entry_doc :: string
  entry_meta :: "(string \<times> json) list"

text \<open>The document template \<^verbatim>\<open>f"Title: {title}\nAbstract: {abstract}"\<close>.\<close>

definition doc_text :: "(json \<Rightarrow> string) \<Rightarrow> json \<Rightarrow> json \<Rightarrow> string" where
  "doc_text repr title abstract =
     ''Title: '' @ py_str repr title @ [CHR 0x0A] @ ''Abstract: '' @ py_str repr abstract"

text \<open>
  The body of the \<^verbatim>\<open>try\<close> for one line, up to the three appends. \<open>Inl e\<close>: exception \<open>e\<close>
  was raised (both handlers \<^verbatim>\<open>continue\<close>); \<open>Inr None\<close>: the guard's \<^verbatim>\<open>continue\<close>;
  \<open>Inr (Some e)\<close>: the entry appended to the batch.
\<close>

definition read_record :: "(json \<Rightarrow> string) \<Rightarrow> json option \<Rightarrow> py_error + entry option" where
  "read_record repr line =
     (case line of
        None \<Rightarrow> Inl JSONDecodeError
      | Some data \<Rightarrow>
          (case json_get data ''pmid'' JNull of
             Inl e \<Rightarrow> Inl e
           | Inr pmid \<Rightarrow>
               (case json_get data ''title'' (JStr []) of
                  Inl e \<Rightarrow> Inl e
                | Inr title \<Rightarrow>
                    (case json_get data ''abstract'' (JStr []) of
                       Inl e \<Rightarrow> Inl e
                     | Inr abstract \<Rightarrow>
                         if \<not> truthy pmid \<or> (\<not> truthy title \<and> \<not> truthy abstract) then Inr None
                         else
                           (case slice200 title of
                              Inl e \<Rightarrow> Inl e
                            | Inr short \<Rightarrow>
                                (case json_get data ''journal'' (JStr []) of
                                   Inl e \<Rightarrow> Inl e
                                 | Inr journal \<Rightarrow>
                                     (case json_get data ''year'' (JStr []) of
                                        Inl e \<Rightarrow> Inl e
                                      | Inr year \<Rightarrow>
                                          Inr (Some \<lparr>entry_id = pmid,
                                                     entry_doc = doc_text repr title abstract,
                                                     entry_meta = [(''pmid'', pmid), (''title'', short),
                                                                   (''journal'', journal), (''year'', year)]\<rparr>))))))))"

text \<open>The local variables of the loop of \<^verbatim>\<open>index_papers\<close>.\<close>

record batch =
  documents :: "string list"
  metadatas :: "(string \<times> json) list list"
  ids :: "json list"
  current_line :: int

text \<open>\<^verbatim>\<open>collection.upsert\<close>: the call is recorded, and each id is bound to its new content.\<close>

definition upsert :: "batch \<Rightarrow> world \<Rightarrow> world" where
  "upsert b w =
     w\<lparr>collection := foldl (\<lambda>c (i, dm). c(i \<mapsto> dm)) (collection w)
                        (zip (ids b) (zip (documents b) (metadatas b))),
       upsert_calls := upsert_calls w @
         [\<lparr>call_documents = documents b, call_metadatas = metadatas b, call_ids = ids b\<rparr>]\<rparr>"

text \<open>One iteration of \<^verbatim>\<open>for line in iterator\<close>.\<close>

definition index_line ::
  "(json \<Rightarrow> string) \<Rightarrow> int \<Rightarrow> string \<Rightarrow> batch \<times> world \<Rightarrow> json option \<Rightarrow> batch \<times> world" where
  "index_line repr batch_size checkpoint_path s line =
     (let b = (fst s)\<lparr>current_line := current_line (fst s) + 1\<rparr>; w = snd s in
      case read_record repr line of
        Inl e \<Rightarrow> (b, w)
      | Inr None \<Rightarrow> (b, w)
      | Inr (Some e) \<Rightarrow>
          (let b' = b\<lparr>documents := documents b @ [entry_doc e],
                      metadatas := metadatas b @ [entry_meta e],
                      ids := ids b @ [entry_id e]\<rparr>
           in if int (length (documents b')) \<ge> batch_size
              then (b'\<lparr>documents := [], metadatas := [], ids := []\<rparr>,
                    save_checkpoint checkpoint_path (current_line b') (upsert b' w))
              else (b', w)))"

text \<open>
  The loop over the lines that remain after the skipped ones, followed by
  \<^verbatim>\<open>if documents:\<close> with the upsert of the last partial batch.
\<close>

definition index_rest ::
  "(json \<Rightarrow> string) \<Rightarrow> int \<Rightarrow> string \<Rightarrow> int \<Rightarrow> json option list \<Rightarrow> world \<Rightarrow> world" where
  "index_rest repr batch_size checkpoint_path start_line rest w =
     (let s = foldl (index_line repr batch_size checkpoint_path)
                (\<lparr>documents = [], metadatas = [], ids = [], current_line = start_line\<rparr>, w) rest
      in if documents (fst s) \<noteq> []
         then save_checkpoint checkpoint_path (current_line (fst s)) (upsert (fst s) (snd s))
         else snd s)"

text \<open>
  \<^verbatim>\<open>index_papers\<close>. A missing metadata file returns at once. The comparison
  \<^verbatim>\<open>start_line > 0\<close> raises TypeError when the checkpoint holds a value that is no number;
  nothing catches it. \<^verbatim>\<open>next(f, None)\<close> skips \<open>start_line\<close> lines, fewer when the file is
  shorter. The line count for the progress bar has no effect and is left out.
\<close>

definition index_papers ::
  "(json \<Rightarrow> string) \<Rightarrow> string \<Rightarrow> int \<Rightarrow> world \<Rightarrow> py_error + world" where
  "index_papers repr metadata_file batch_size w =
     (case stores w metadata_file of
        None \<Rightarrow> Inr w
      | Some lines \<Rightarrow>
          (let checkpoint_path = get_checkpoint_path metadata_file in
           case as_int (load_checkpoint (checkpoints w checkpoint_path)) of
             None \<Rightarrow> Inl TypeError
           | Some start_line \<Rightarrow>
               Inr (index_rest repr batch_size checkpoint_path start_line
                      (if start_line > 0 then drop (nat start_line) lines else lines) w)))"

text \<open>A line is accepted when the loop body reaches the appends.\<close>

definition accepted :: "(json \<Rightarrow> string) \<Rightarrow> json option \<Rightarrow> bool" where
  "accepted repr line = (case read_record repr line of Inr (Some e) \<Rightarrow> True | _ \<Rightarrow> False)"

subsection \<open>Query\<close>

text \<open>
  What \<^verbatim>\<open>collection.query\<close> returns: for each key one list per query text. The search
  itself is the external index's; \<^verbatim>\<open>query\<close> is modelled from the result on.
\<close>

record query_result =
  res_ids :: "json list list"
  res_metadatas :: "(string \<times> json) list list list"
  res_documents :: "string list list"

record candidate =
  cand_pmid :: json
  cand_title :: json
  cand_journal :: json
  cand_year :: json
  cand_abstract :: string
  cand_authors :: "string list"

text \<open>\<^verbatim>\<open>sep in s\<close> for strings.\<close>

fun str_contains :: "string \<Rightarrow> string \<Rightarrow> bool" where
  "str_contains sep [] = (sep = [])"
| "str_contains sep (c # cs) = (take (length sep) (c # cs) = sep \<or> str_contains sep cs)"

text \<open>
  \<^verbatim>\<open>s.split(sep, 1)\<close> for a non-empty separator: the text before the first occurrence and
  the text after it, or the whole text alone when there is none.
\<close>

fun split_once :: "string \<Rightarrow> string \<Rightarrow> string list" where
  "split_once sep [] = [[]]"
| "split_once sep (c # cs) =
     (if take (length sep) (c # cs) = sep then [[], drop (length sep) (c # cs)]
      else (case split_once sep cs of
              [] \<Rightarrow> [[c]]
            | u # rest \<Rightarrow> (c # u) # rest))"

definition parse_abstract :: "string \<Rightarrow> string" where
  "parse_abstract doc =
     (if str_contains ''Abstract: '' doc
      then (case split_once ''Abstract: '' doc of
              u # v # rest \<Rightarrow> v
            | _ \<Rightarrow> [])
      else [])"

definition make_candidate :: "json \<Rightarrow> (string \<times> json) list \<Rightarrow> string \<Rightarrow> candidate" where
  "make_candidate doc_id meta doc =
     \<lparr>cand_pmid = doc_id,
      cand_title = dict_get meta ''title'' (JStr []),
      cand_journal = dict_get meta ''journal'' (JStr []),
      cand_year = dict_get meta ''year'' (JStr []),
      cand_abstract = parse_abstract doc,
      cand_authors = []\<rparr>"

text \<open>\<^verbatim>\<open>xs[0]\<close> and \<^verbatim>\<open>xs[i]\<close> raise IndexError out of range.\<close>

definition first :: "'a list \<Rightarrow> py_error + 'a" where
  "first xs = (case xs of [] \<Rightarrow> Inl IndexError | x # rest \<Rightarrow> Inr x)"

definition item :: "'a list \<Rightarrow> nat \<Rightarrow> py_error + 'a" where
  "item xs i = (if i < length xs then Inr (xs ! i) else Inl IndexError)"

text \<open>
  The loop \<^verbatim>\<open>for i, doc_id in enumerate(ids)\<close> of the package's vector\_store.py, which
  reads \<^verbatim>\<open>metas[i]\<close>.
\<close>

fun candidates_from ::
  "(string \<times> json) list list \<Rightarrow> string list \<Rightarrow> nat \<Rightarrow> json list \<Rightarrow> py_error + candidate list" where
  "candidates_from metas docs i [] = Inr []"
| "candidates_from metas docs i (doc_id # rest) =
     (case item metas i of
        Inl e \<Rightarrow> Inl e
      | Inr meta \<Rightarrow>
          (case item docs i of
             Inl e \<Rightarrow> Inl e
           | Inr doc \<Rightarrow>
               (case candidates_from metas docs (Suc i) rest of
                  Inl e \<Rightarrow> Inl e
                | Inr cs \<Rightarrow> Inr (make_candidate doc_id meta doc # cs))))"

definition query :: "query_result \<Rightarrow> py_error + candidate list" where
  "query results =
     (if res_ids results = [] then Inr []
      else
        (case first (res_ids results) of
           Inl e \<Rightarrow> Inl e
         | Inr ids0 \<Rightarrow>
             (case first (res_metadatas results) of
                Inl e \<Rightarrow> Inl e
              | Inr metas \<Rightarrow>
                  (case first (res_documents results) of
                     Inl e \<Rightarrow> Inl e
                   | Inr docs \<Rightarrow> candidates_from metas docs 0 ids0))))"

text \<open>
  The same loop in the top-level vector\_store.py reads \<^verbatim>\<open>metadatas[i]\<close>: no such name is
  bound in \<^verbatim>\<open>query\<close> or in the module, so the first iteration raises NameError.
\<close>

fun candidates_from_toplevel ::
  "(string \<times> json) list list \<Rightarrow> string list \<Rightarrow> nat \<Rightarrow> json list \<Rightarrow> py_error + candidate list" where
  "candidates_from_toplevel metas docs i [] = Inr []"
| "candidates_from_toplevel metas docs i (doc_id # rest) = Inl NameError"

definition query_toplevel :: "query_result \<Rightarrow> py_error + candidate list" where
  "query_toplevel results =
     (if res_ids results = [] then Inr []
      else
        (case first (res_ids results) of
           Inl e \<Rightarrow> Inl e
         | Inr ids0 \<Rightarrow>
             (case first (res_metadatas results) of
                Inl e \<Rightarrow> Inl e
              | Inr metas \<Rightarrow>
                  (case first (res_documents results) of
                     Inl e \<Rightarrow> Inl e
                   | Inr docs \<Rightarrow> candidates_from_toplevel metas docs 0 ids0))))"

subsection \<open>Reset\<close>

definition COLLECTION_NAME :: string where
  "COLLECTION_NAME = ''pubmed_papers''"

text \<open>
  Modelled from the spec: \<^verbatim>\<open>VectorStore.reset_db\<close> is called by tests/test\_reset.py, but
  neither vector\_store.py defines it. The spec has it delete the checkpoint file and
  recreate the index's backing collection empty; the test expects
  \<^verbatim>\<open>delete_collection("pubmed_papers")\<close> and a further \<^verbatim>\<open>get_or_create_collection\<close>.
\<close>

definition reset_db :: "string \<Rightarrow> world \<Rightarrow> world" where
  "reset_db metadata_file w =
     w\<lparr>checkpoints := (checkpoints w)(get_checkpoint_path metadata_file := Absent),
       collection := (\<lambda>i. None),
       client_calls := client_calls w @
         [DeleteCollection COLLECTION_NAME, GetOrCreateCollection COLLECTION_NAME]\<rparr>"

subsection \<open>The fixtures of tests/test\_checkpoint\_gpu.py\<close>

text \<open>\<^verbatim>\<open>str(i)\<close> for a natural number.\<close>

fun str_nat :: "nat \<Rightarrow> string" where
  "str_nat n =
     (if n < 10 then [char_of (48 + n)]
      else str_nat (n div 10) @ [char_of (48 + n mod 10)])"

declare str_nat.simps [simp del]

definition test_record :: "nat \<Rightarrow> json option" where
  "test_record i =
     Some (JObj [(''pmid'', JStr (str_nat i)), (''title'', JStr (''Title '' @ str_nat i)),
                 (''abstract'', JStr (''Abs '' @ str_nat i))])"

text \<open>
  The records of the tests hold strings only, so \<^verbatim>\<open>str()\<close> of another value is never asked
  for: any function can stand for it.
\<close>

definition str_unused :: "json \<Rightarrow> string" where
  "str_unused v = []"

text \<open>A freshly constructed store over a metadata file with the given lines.\<close>

definition test_world :: "json option list \<Rightarrow> world" where
  "test_world lines =
     \<lparr>stores = (\<lambda>p. if p = ''metadata.jsonl'' then Some lines else None),
      checkpoints = (\<lambda>p. Absent), cp_writable = True,
      collection = (\<lambda>i. None), upsert_calls = [],
      client_calls = [GetOrCreateCollection COLLECTION_NAME]\<rparr>"

subsection \<open>The fixture of tests/test\_vector\_store.py\<close>

definition test_query_result :: query_result where
  "test_query_result =
     \<lparr>res_ids = [[JStr ''12345'']],
      res_metadatas = [[[(''title'', JStr ''Test Title''), (''journal'', JStr ''Test Journal''),
                         (''year'', JStr ''2023'')]]],
      res_documents = [[''Title: Test Title'' @ [CHR 0x0A] @ ''Abstract: Test Abstract'']]\<rparr>"

section \<open>The record codec (parser.py)\<close>

text \<open>
  An element of the XML tree as lxml presents it: tag, attributes, the text before the
  first child (\<open>None\<close> when there is none) and the child elements in document order.
\<close>

datatype xml =
  Element (elem_tag: string) (attrib: "(string \<times> string) list") (elem_text: "string option")
    (children: "xml list")

text \<open>\<^verbatim>\<open>elem.find(tag)\<close> is the first child with that tag, \<^verbatim>\<open>elem.findall(tag)\<close> are all of them.\<close>

definition findall :: "xml \<Rightarrow> string \<Rightarrow> xml list" where
  "findall elem t = filter (\<lambda>c. elem_tag c = t) (children elem)"

definition find_elem :: "xml \<Rightarrow> string \<Rightarrow> xml option" where
  "find_elem elem t = (case findall elem t of [] \<Rightarrow> None | c # cs \<Rightarrow> Some c)"

text \<open>\<^verbatim>\<open>t.text\<close> as a truth value: there is a text and it is not empty.\<close>

definition has_text :: "xml \<Rightarrow> bool" where
  "has_text elem = (case elem_text elem of None \<Rightarrow> False | Some s \<Rightarrow> s \<noteq> [])"

definition extract_text :: "xml option \<Rightarrow> string" where
  "extract_text element =
     (case element of
        None \<Rightarrow> []
      | Some e \<Rightarrow> (if has_text e then the (elem_text e) else []))"

text \<open>\<^verbatim>\<open>sep.join(parts)\<close>.\<close>

fun join :: "string \<Rightarrow> string list \<Rightarrow> string" where
  "join sep [] = []"
| "join sep [x] = x"
| "join sep (x # y # ys) = x @ sep @ join sep (y # ys)"

text \<open>
  \<^verbatim>\<open>s.strip()\<close>: the characters below 256 that Python counts as whitespace are removed at
  both ends.
\<close>

definition is_space :: "char \<Rightarrow> bool" where
  "is_space c = (of_char c \<in> {9, 10, 11, 12, 13, 28, 29, 30, 31, 32, 133, 160 :: nat})"

definition strip :: "string \<Rightarrow> string" where
  "strip s = rev (dropWhile is_space (rev (dropWhile is_space s)))"

record paper =
  paper_pmid :: string
  paper_title :: string
  paper_abstract :: string
  paper_authors :: "string list"
  paper_journal :: string
  paper_year :: string
  paper_doi :: string
  paper_pmcid :: string
  paper_pub_types :: "string list"
  paper_languages :: "string list"
  paper_mesh_terms :: "string list"
  paper_chemicals :: "string list"
  paper_keywords :: "string list"

text \<open>
  The blocks of \<^verbatim>\<open>parse_article\<close>, one definition for each: abstract, authors, journal
  title and year, the lists of texts (publication types, keywords), MeSH terms and the
  article identifiers.
\<close>

definition abstract_of :: "xml \<Rightarrow> string" where
  "abstract_of article =
     (case find_elem article ''Abstract'' of
        None \<Rightarrow> []
      | Some abstract_elem \<Rightarrow>
          join '' '' (map (\<lambda>t. extract_text (Some t))
                        (filter has_text (findall abstract_elem ''AbstractText''))))"

definition authors_of :: "xml \<Rightarrow> string list" where
  "authors_of article =
     (case find_elem article ''AuthorList'' of
        None \<Rightarrow> []
      | Some author_list \<Rightarrow>
          concat (map (\<lambda>author.
            let last_name = extract_text (find_elem author ''LastName'');
                fore_name = extract_text (find_elem author ''ForeName'')
            in if last_name \<noteq> [] \<or> fore_name \<noteq> [] then [strip (last_name @ '' '' @ fore_name)] else [])
            (findall author_list ''Author'')))"

definition journal_of :: "xml \<Rightarrow> string \<times> string" where
  "journal_of article =
     (case find_elem article ''Journal'' of
        None \<Rightarrow> ([], [])
      | Some journal_elem \<Rightarrow>
          (extract_text (find_elem journal_elem ''Title''),
           (case find_elem journal_elem ''JournalIssue'' of
              None \<Rightarrow> []
            | Some journal_issue \<Rightarrow>
                (case find_elem journal_issue ''PubDate'' of
                   None \<Rightarrow> []
                 | Some pub_date \<Rightarrow>
                     (case find_elem pub_date ''Year'' of
                        Some year_elem \<Rightarrow> extract_text (Some year_elem)
                      | None \<Rightarrow>
                          (case find_elem pub_date ''MedlineDate'' of
                             None \<Rightarrow> []
                           | Some medline_date \<Rightarrow> take 4 (extract_text (Some medline_date))))))))"

definition texts_under :: "xml \<Rightarrow> string \<Rightarrow> string \<Rightarrow> string list" where
  "texts_under parent list_tag item_tag =
     (case find_elem parent list_tag of
        None \<Rightarrow> []
      | Some l \<Rightarrow> map (\<lambda>e. extract_text (Some e)) (findall l item_tag))"

definition mesh_terms_of :: "xml \<Rightarrow> string list" where
  "mesh_terms_of medline =
     (case find_elem medline ''MeshHeadingList'' of
        None \<Rightarrow> []
      | Some mesh_list \<Rightarrow>
          map (\<lambda>mesh.
            let descriptor = extract_text (find_elem mesh ''DescriptorName'');
                qualifiers = map (\<lambda>q. extract_text (Some q)) (findall mesh ''QualifierName'')
            in if qualifiers \<noteq> [] then descriptor @ '' ['' @ join '', '' qualifiers @ '']'' else descriptor)
            (findall mesh_list ''MeshHeading''))"

text \<open>The loop over the ArticleId elements: each match overwrites the value found before.\<close>

definition article_ids_of :: "xml option \<Rightarrow> string \<times> string" where
  "article_ids_of pubmed_data =
     (case pubmed_data of
        None \<Rightarrow> ([], [])
      | Some pd \<Rightarrow>
          (case find_elem pd ''ArticleIdList'' of
             None \<Rightarrow> ([], [])
           | Some article_id_list \<Rightarrow>
               foldl (\<lambda>(doi_text, pmcid_text) article_id.
                        if map_of (attrib article_id) ''IdType'' = Some ''doi''
                        then (extract_text (Some article_id), pmcid_text)
                        else if map_of (attrib article_id) ''IdType'' = Some ''pmc''
                        then (doi_text, extract_text (Some article_id))
                        else (doi_text, pmcid_text))
                 ([], []) (findall article_id_list ''ArticleId'')))"

text \<open>
  \<^verbatim>\<open>parse_article\<close>: \<open>None\<close> is \<^verbatim>\<open>return None\<close>. No operation of the body raises on a tree of
  this shape, so the \<^verbatim>\<open>except\<close> branch has no counterpart.
\<close>

definition parse_article :: "xml \<Rightarrow> paper option" where
  "parse_article elem =
     (case find_elem elem ''MedlineCitation'' of
        None \<Rightarrow> None
      | Some medline \<Rightarrow>
          (let pmid_text = extract_text (find_elem medline ''PMID'') in
           case find_elem medline ''Article'' of
             None \<Rightarrow> None
           | Some article \<Rightarrow>
               Some \<lparr>paper_pmid = pmid_text,
                     paper_title = extract_text (find_elem article ''ArticleTitle''),
                     paper_abstract = abstract_of article,
                     paper_authors = authors_of article,
                     paper_journal = fst (journal_of article),
                     paper_year = snd (journal_of article),
                     paper_doi = fst (article_ids_of (find_elem elem ''PubmedData'')),
                     paper_pmcid = snd (article_ids_of (find_elem elem ''PubmedData'')),
                     paper_pub_types = texts_under article ''PublicationTypeList'' ''PublicationType'',
                     paper_languages = map (\<lambda>e. extract_text (Some e)) (findall article ''Language''),
                     paper_mesh_terms = mesh_terms_of medline,
                     paper_chemicals =
                       (case find_elem medline ''ChemicalList'' of
                          None \<Rightarrow> []
                        | Some chemical_list \<Rightarrow>
                            map (\<lambda>chem. extract_text (find_elem chem ''NameOfSubstance''))
                              (findall chemical_list ''Chemical'')),
                     paper_keywords = texts_under medline ''KeywordList'' ''Keyword''\<rparr>))"

text \<open>The dict that \<^verbatim>\<open>json.dump\<close> writes, as \<^verbatim>\<open>json.loads\<close> reads it back.\<close>

definition paper_json :: "paper \<Rightarrow> json" where
  "paper_json p =
     JObj [(''pmid'', JStr (paper_pmid p)),
           (''title'', JStr (paper_title p)),
           (''abstract'', JStr (paper_abstract p)),
           (''authors'', JArr (map JStr (paper_authors p))),
           (''journal'', JStr (paper_journal p)),
           (''year'', JStr (paper_year p)),
           (''doi'', JStr (paper_doi p)),
           (''pmcid'', JStr (paper_pmcid p)),
           (''pub_types'', JArr (map JStr (paper_pub_types p))),
           (''languages'', JArr (map JStr (paper_languages p))),
           (''mesh_terms'', JArr (map JStr (paper_mesh_terms p))),
           (''chemicals'', JArr (map JStr (paper_chemicals p))),
           (''keywords'', JArr (map JStr (paper_keywords p)))]"

text \<open>
  \<^verbatim>\<open>process_file\<close> on the PubmedArticle elements of one archive: \<^verbatim>\<open>if data:\<close> holds for every
  dict that \<^verbatim>\<open>parse_article\<close> returns (it has thirteen keys), so each one is appended to the
  output file as one line.
\<close>

definition process_file :: "xml list \<Rightarrow> json option list \<Rightarrow> json option list" where
  "process_file elems out_f =
     out_f @ concat (map (\<lambda>elem. case parse_article elem of
                                   None \<Rightarrow> []
                                 | Some data \<Rightarrow> [Some (paper_json data)]) elems)"

subsection \<open>An article without PMID\<close>

definition article_without_pmid :: xml where
  "article_without_pmid =
     Element ''PubmedArticle'' [] None
       [Element ''MedlineCitation'' [] None
          [Element ''Article'' [] None
             [Element ''ArticleTitle'' [] (Some ''A title'') []]]]"

section \<open>The fetcher (downloader.py of the package)\<close>

text \<open>
  Exceptions, by the handler of \<^verbatim>\<open>download_file\<close> that catches them. \<open>RequestException\<close>
  stands for \<^verbatim>\<open>requests.exceptions.RequestException\<close> and its subclasses (HTTPError,
  ChunkedEncodingError and the others), \<open>BuiltinConnectionError\<close> for Python's own
  \<^verbatim>\<open>ConnectionError\<close>, \<open>OtherError\<close> for every exception the first handler does not name
  (ValueError, OSError and so on).
\<close>

datatype exn = RequestException | BuiltinConnectionError | OtherError

text \<open>
  The content-length header of a response: absent, the empty string, a text that
  \<^verbatim>\<open>int()\<close> rejects, or a text that \<^verbatim>\<open>int()\<close> reads as a number.
\<close>

datatype header = NoHeader | EmptyHeader | NotANumber | Number int

text \<open>
  What the network does in one attempt: \<^verbatim>\<open>session.head\<close> raises or answers with a status
  and a content-length; \<^verbatim>\<open>session.get\<close> raises or answers with a status, a content-length,
  the blocks that \<^verbatim>\<open>iter_content\<close> yields and the exception that ends the iteration, if
  any. \<open>env_open_fails\<close>: \<^verbatim>\<open>open(local_path, mode)\<close> raises OSError.
\<close>

datatype head_outcome = HeadRaises exn | HeadResponse nat header

datatype get_outcome = GetRaises exn | GetResponse nat header "string list" "exn option"

record attempt_env =
  env_head :: head_outcome
  env_get :: get_outcome
  env_open_fails :: bool

text \<open>A request sent; \<open>Get (Some k)\<close> carries the header \<^verbatim>\<open>Range: bytes=k-\<close>, \<open>Get None\<close> none.\<close>

datatype request = Head | Get "nat option"

text \<open>
  How an attempt ends: \<open>Success\<close> (\<^verbatim>\<open>success = True; break\<close>), \<open>Retry\<close> (the first handler:
  sleep and \<^verbatim>\<open>continue\<close>) or \<open>Abort\<close> (the second handler: \<^verbatim>\<open>break\<close>).
\<close>

datatype attempt_result = Success | Retry | Abort

fun handler :: "exn \<Rightarrow> attempt_result" where
  "handler RequestException = Retry"
| "handler BuiltinConnectionError = Retry"
| "handler OtherError = Abort"

text \<open>
  The inner \<^verbatim>\<open>try\<close> around the HEAD request: the total size, or the exception that leaves
  it. A RequestException and an error status make the total unknown (0).
\<close>

definition probe :: "head_outcome \<Rightarrow> exn + int" where
  "probe h =
     (case h of
        HeadRaises e \<Rightarrow> (if e = RequestException then Inr 0 else Inl e)
      | HeadResponse status_code content_length \<Rightarrow>
          (if status_code \<ge> 400 then Inr 0
           else (case content_length of
                   NoHeader \<Rightarrow> Inr 0
                 | Number n \<Rightarrow> Inr n
                 | EmptyHeader \<Rightarrow> Inl OtherError
                 | NotANumber \<Rightarrow> Inl OtherError)))"

text \<open>\<^verbatim>\<open>if total_size == 0:\<close> after the GET response, with \<^verbatim>\<open>if content_length:\<close> inside.\<close>

definition update_total :: "int \<Rightarrow> header \<Rightarrow> nat \<Rightarrow> exn + int" where
  "update_total total_size content_length current_size =
     (if total_size = 0
      then (case content_length of
              Number n \<Rightarrow> Inr (n + int current_size)
            | NotANumber \<Rightarrow> Inl OtherError
            | NoHeader \<Rightarrow> Inr total_size
            | EmptyHeader \<Rightarrow> Inr total_size)
      else Inr total_size)"

text \<open>
  The loop over \<^verbatim>\<open>iter_content\<close>: blocks are written until an empty one, which ends the
  loop; the exception ending the iteration is raised only when no empty block came first.
\<close>

definition received :: "string list \<Rightarrow> string" where
  "received chunks = concat (takeWhile (\<lambda>data. data \<noteq> []) chunks)"

definition stream_error :: "string list \<Rightarrow> exn option \<Rightarrow> exn option" where
  "stream_error chunks stream_end = (if filter (\<lambda>data. data = []) chunks = [] then stream_end else None)"

definition file_size :: "string option \<Rightarrow> nat" where
  "file_size local_file = (case local_file of None \<Rightarrow> 0 | Some bytes \<Rightarrow> length bytes)"

text \<open>
  The body of \<^verbatim>\<open>for attempt in range(max_retries)\<close> up to the handlers: the result, the
  local file afterwards (\<open>None\<close>: no file) and the requests sent. \<open>append\<close> is mode
  \<^verbatim>\<open>'ab'\<close>.
\<close>

definition attempt_once :: "attempt_env \<Rightarrow> string option \<Rightarrow> attempt_result \<times> string option \<times> request list" where
  "attempt_once env local_file =
     (let current_size = file_size local_file;
          resume_header = (if current_size > 0 then Some current_size else None);
          append = (current_size > 0)
      in case probe (env_head env) of
           Inl e \<Rightarrow> (handler e, local_file, [Head])
         | Inr total_size \<Rightarrow>
             if total_size > 0 \<and> int current_size \<ge> total_size then (Success, local_file, [Head])
             else
               (case env_get env of
                  GetRaises e \<Rightarrow> (handler e, local_file, [Head, Get resume_header])
                | GetResponse status_code content_length chunks stream_end \<Rightarrow>
                    if 400 \<le> status_code \<and> status_code < 600
                    then (Retry, local_file, [Head, Get resume_header])
                    else
                      (let current_size' = (if status_code = 200 then 0 else current_size);
                           append' = (if status_code = 200 then False else append)
                       in case update_total total_size content_length current_size' of
                            Inl e \<Rightarrow> (handler e, local_file, [Head, Get resume_header])
                          | Inr total_size' \<Rightarrow>
                              if env_open_fails env then (Abort, local_file, [Head, Get resume_header])
                              else
                                (let written =
                                       (case local_file of
                                          None \<Rightarrow> []
                                        | Some bytes \<Rightarrow> (if append' then bytes else [])) @ received chunks
                                 in case stream_error chunks stream_end of
                                      Some e \<Rightarrow> (handler e, Some written, [Head, Get resume_header])
                                    | None \<Rightarrow>
                                        if total_size' > 0 \<and> int (length written) < total_size'
                                        then (Retry, Some written, [Head, Get resume_header])
                                        else (Success, Some written, [Head, Get resume_header])))))"

text \<open>
  The result of \<^verbatim>\<open>download_file\<close>: \<open>success\<close> (the path is returned, otherwise None), the
  local file, the attempts made, each with its result, the file it left and its requests, and
  the arguments of \<^verbatim>\<open>time.sleep\<close>.
\<close>

record download =
  success :: bool
  final_file :: "string option"
  attempts :: "(attempt_result \<times> string option \<times> request list) list"
  sleeps :: "nat list"

text \<open>The loop over the attempt numbers that are left; \<open>env attempt\<close> is the network of that attempt.\<close>

fun run_attempts :: "(nat \<Rightarrow> attempt_env) \<Rightarrow> nat list \<Rightarrow> string option \<Rightarrow> download" where
  "run_attempts env [] local_file =
     \<lparr>success = False, final_file = local_file, attempts = [], sleeps = []\<rparr>"
| "run_attempts env (attempt # rest) local_file =
     (let r = attempt_once (env attempt) local_file in
      case fst r of
        Success \<Rightarrow> \<lparr>success = True, final_file = fst (snd r), attempts = [r], sleeps = []\<rparr>
      | Abort \<Rightarrow> \<lparr>success = False, final_file = fst (snd r), attempts = [r], sleeps = []\<rparr>
      | Retry \<Rightarrow>
          (let d = run_attempts env rest (fst (snd r))
           in d\<lparr>attempts := r # attempts d, sleeps := 5 * 2 ^ attempt # sleeps d\<rparr>))"

definition download_file :: "(nat \<Rightarrow> attempt_env) \<Rightarrow> int \<Rightarrow> string option \<Rightarrow> download" where
  "download_file env max_retries local_file = run_attempts env [0..<nat max_retries] local_file"

subsection \<open>Networks used as examples\<close>

text \<open>The server announces 10 bytes and sends them, but the local file cannot be opened.\<close>

definition disk_error_env :: "nat \<Rightarrow> attempt_env" where
  "disk_error_env attempt =
     \<lparr>env_head = HeadResponse 200 (Number 10),
      env_get = GetResponse 200 (Number 10) [''0123456789''] None,
      env_open_fails = True\<rparr>"

text \<open>The HEAD request fails in the network; the GET request delivers the file.\<close>

definition probe_error_env :: "nat \<Rightarrow> attempt_env" where
  "probe_error_env attempt =
     \<lparr>env_head = HeadRaises RequestException,
      env_get = GetResponse 200 (Number 10) [''0123456789''] None,
      env_open_fails = False\<rparr>"

text \<open>Every GET request fails in the network.\<close>

definition offline_env :: "nat \<Rightarrow> attempt_env" where
  "offline_env attempt =
     \<lparr>env_head = HeadRaises RequestException,
      env_get = GetRaises RequestException,
      env_open_fails = False\<rparr>"

text \<open>The server answers every request with status 503.\<close>

definition server_error_env :: "nat \<Rightarrow> attempt_env" where
  "server_error_env attempt =
     \<lparr>env_head = HeadResponse 503 NoHeader,
      env_get = GetResponse 503 NoHeader [] None,
      env_open_fails = False\<rparr>"

text \<open>The server announces 3 bytes and sends 5.\<close>

definition oversize_env :: "nat \<Rightarrow> attempt_env" where
  "oversize_env attempt =
     \<lparr>env_head = HeadResponse 200 (Number 3),
      env_get = GetResponse 200 (Number 3) [''abcde''] None,
      env_open_fails = False\<rparr>"

text \<open>
  The server announces 10 bytes; it honours a range (206) by sending the rest from that
  offset, and answers with the whole file (200) otherwise; the first transfer of a file
  breaks off after 4 bytes.
\<close>

definition resume_env :: "nat \<Rightarrow> attempt_env" where
  "resume_env attempt =
     (if attempt = 0
      then \<lparr>env_head = HeadResponse 200 (Number 10),
            env_get = GetResponse 200 (Number 10) [''0123''] None,
            env_open_fails = False\<rparr>
      else \<lparr>env_head = HeadResponse 200 (Number 10),
            env_get = GetResponse 206 (Number 6) [''4567'', ''89''] None,
            env_open_fails = False\<rparr>)"

definition no_range_env :: "nat \<Rightarrow> attempt_env" where
  "no_range_env attempt =
     \<lparr>env_head = HeadResponse 200 (Number 10),
      env_get = GetResponse 200 (Number 10) [''0123456789''] None,
      env_open_fails = False\<rparr>"

section \<open>Properties of the indexer\<close>

lemma save_checkpoint_fields [simp]:
  "upsert_calls (save_checkpoint p n w) = upsert_calls w"
  "cp_writable (save_checkpoint p n w) = cp_writable w"
  "stores (save_checkpoint p n w) = stores w"
  "collection (save_checkpoint p n w) = collection w"
  by (simp_all add: save_checkpoint_def)

lemma save_checkpoint_written:
  "cp_writable w \<Longrightarrow>
   checkpoints (save_checkpoint p n w) p = Content (Some (JObj [(''processed_lines'', JNum n)]))"
  by (simp add: save_checkpoint_def)

lemma save_checkpoint_other:
  "q \<noteq> p \<Longrightarrow> checkpoints (save_checkpoint p n w) q = checkpoints w q"
  by (simp add: save_checkpoint_def)

lemma upsert_fields [simp]:
  "upsert_calls (upsert b w) =
     upsert_calls w @ [\<lparr>call_documents = documents b, call_metadatas = metadatas b, call_ids = ids b\<rparr>]"
  "cp_writable (upsert b w) = cp_writable w"
  "stores (upsert b w) = stores w"
  "checkpoints (upsert b w) = checkpoints w"
  by (simp_all add: upsert_def)

lemma load_written [simp]:
  "load_checkpoint (Content (Some (JObj [(''processed_lines'', JNum n)]))) = JNum n"
  by (simp add: dict_get_def)

lemma accepted_iff: "accepted repr line \<longleftrightarrow> (\<exists>e. read_record repr line = Inr (Some e))"
  by (auto simp: accepted_def split: sum.splits option.splits)

lemma accepted_dict:
  "accepted repr line \<longleftrightarrow>
     (\<exists>d. line = Some (JObj d) \<and> truthy (dict_get d ''pmid'' JNull) \<and>
          (truthy (dict_get d ''title'' (JStr [])) \<or> truthy (dict_get d ''abstract'' (JStr []))) \<and>
          (\<exists>t. slice200 (dict_get d ''title'' (JStr [])) = Inr t))"
proof (cases line)
  case None
  then show ?thesis by (simp add: accepted_def read_record_def)
next
  case (Some data)
  then show ?thesis
    by (cases data) (auto simp: accepted_def read_record_def split: sum.splits)
qed

lemma index_line_rejected:
  "\<not> accepted repr line \<Longrightarrow>
   index_line repr B cp (b, w) line = (b\<lparr>current_line := current_line b + 1\<rparr>, w)"
  by (auto simp: accepted_def index_line_def Let_def split: sum.splits option.splits)

lemma index_line_accepted:
  "read_record repr line = Inr (Some e) \<Longrightarrow>
   index_line repr B cp (b, w) line =
     (let b' = b\<lparr>current_line := current_line b + 1,
                 documents := documents b @ [entry_doc e],
                 metadatas := metadatas b @ [entry_meta e],
                 ids := ids b @ [entry_id e]\<rparr>
      in if B \<le> int (length (documents b)) + 1
         then (b'\<lparr>documents := [], metadatas := [], ids := []\<rparr>,
               save_checkpoint cp (current_line b + 1) (upsert b' w))
         else (b', w))"
  by (simp add: index_line_def Let_def)

lemma current_line_index_line:
  "current_line (fst (index_line repr B cp s line)) = current_line (fst s) + 1"
  by (simp add: index_line_def Let_def split: sum.splits option.splits)

lemma current_line_foldl:
  "current_line (fst (foldl (index_line repr B cp) s ls)) = current_line (fst s) + int (length ls)"
  by (induction ls arbitrary: s) (simp_all add: current_line_index_line)

lemma ceiling_batches:
  assumes "0 < k"
  shows "int (n div k + (if n mod k \<noteq> 0 then 1 else 0)) = \<lceil>real n / real k\<rceil>"
proof -
  have m: "(int n mod int k = 0) = (n mod k = 0)"
    by (metis of_nat_eq_0_iff of_nat_mod)
  have "\<lceil>real n / real k\<rceil> = \<lceil>real_of_int (int n) / real_of_int (int k)\<rceil>" by simp
  also have "\<dots> = - (- int n div int k)" by (rule ceiling_divide_eq_div)
  also have "\<dots> = int (n div k + (if n mod k \<noteq> 0 then 1 else 0))"
    using assms by (simp add: zdiv_zminus1_eq_if m of_nat_div)
  finally show ?thesis by simp
qed

lemma foldl_rejected:
  assumes "filter (accepted repr) ls = []"
  shows "foldl (index_line repr B cp) (b, w) ls = (b\<lparr>current_line := current_line b + int (length ls)\<rparr>, w)"
  using assms
proof (induction ls rule: rev_induct)
  case Nil
  show ?case by simp
next
  case (snoc l ls)
  then have "\<not> accepted repr l" and "filter (accepted repr) ls = []"
    by (auto split: if_splits)
  with snoc.IH show ?case by (simp add: index_line_rejected add.assoc)
qed

lemma foldl_counts:
  assumes "0 < B" and "int (length (documents b)) < B"
  shows "length (documents (fst (foldl (index_line repr B cp) (b, w) ls))) =
           (length (documents b) + length (filter (accepted repr) ls)) mod nat B
       \<and> length (upsert_calls (snd (foldl (index_line repr B cp) (b, w) ls))) =
           length (upsert_calls w) + (length (documents b) + length (filter (accepted repr) ls)) div nat B
       \<and> cp_writable (snd (foldl (index_line repr B cp) (b, w) ls)) = cp_writable w
       \<and> stores (snd (foldl (index_line repr B cp) (b, w) ls)) = stores w"
proof (induction ls rule: rev_induct)
  case Nil
  from assms show ?case by simp
next
  case (snoc l ls)
  define s where "s = foldl (index_line repr B cp) (b, w) ls"
  define n where "n = length (documents b) + length (filter (accepted repr) ls)"
  from snoc have IH:
    "length (documents (fst s)) = n mod nat B"
    "length (upsert_calls (snd s)) = length (upsert_calls w) + n div nat B"
    "cp_writable (snd s) = cp_writable w" "stores (snd s) = stores w"
    by (simp_all add: s_def n_def)
  have step: "foldl (index_line repr B cp) (b, w) (ls @ [l]) = index_line repr B cp (fst s, snd s) l"
    by (simp add: s_def)
  show ?case
  proof (cases "accepted repr l")
    case False
    then have n': "length (documents b) + length (filter (accepted repr) (ls @ [l])) = n"
      by (simp add: n_def)
    show ?thesis
      unfolding step n' index_line_rejected [OF False] using IH by simp
  next
    case True
    then obtain e where e: "read_record repr l = Inr (Some e)"
      by (auto simp: accepted_iff)
    have k: "0 < nat B" using assms(1) by simp
    have cond: "(B \<le> int (length (documents (fst s))) + 1) \<longleftrightarrow> Suc (n mod nat B) = nat B"
    proof -
      have "n mod nat B < nat B" using k by simp
      moreover have "B = int (nat B)" using assms(1) by simp
      ultimately have "(B \<le> int (n mod nat B) + 1) \<longleftrightarrow> Suc (n mod nat B) = nat B"
        by linarith
      then show ?thesis by (simp add: IH(1))
    qed
    have n': "length (documents b) + length (filter (accepted repr) (ls @ [l])) = Suc n"
      using True by (simp add: n_def)
    show ?thesis
      unfolding step n' index_line_accepted [OF e] Let_def
      using IH cond by (simp add: mod_Suc div_Suc)
  qed
qed

lemma foldl_checkpoint:
  assumes "cp_writable w" and "0 < B" and "int (length (documents b)) < B"
    and "filter (accepted repr) ls \<noteq> []"
    and "documents (fst (foldl (index_line repr B cp) (b, w) ls)) = []"
  shows "checkpoints (snd (foldl (index_line repr B cp) (b, w) ls)) cp =
           Content (Some (JObj [(''processed_lines'',
             JNum (current_line b + int (length ls)
                   - int (length (takeWhile (\<lambda>l. \<not> accepted repr l) (rev ls)))))]))"
  using assms(4,5)
proof (induction ls rule: rev_induct)
  case Nil
  then show ?case by simp
next
  case (snoc l ls)
  define s where "s = foldl (index_line repr B cp) (b, w) ls"
  have step: "foldl (index_line repr B cp) (b, w) (ls @ [l]) = index_line repr B cp (fst s, snd s) l"
    by (simp add: s_def)
  have cl: "current_line (fst s) = current_line b + int (length ls)"
    by (simp add: s_def current_line_foldl)
  show ?case
  proof (cases "accepted repr l")
    case False
    with snoc.prems(1) have ne: "filter (accepted repr) ls \<noteq> []" by simp
    from snoc.prems(2) have "documents (fst (index_line repr B cp (fst s, snd s) l)) = []"
      unfolding step .
    then have d: "documents (fst s) = []"
      unfolding index_line_rejected [OF False] by simp
    from snoc.IH [OF ne] d have
      "checkpoints (snd s) cp =
         Content (Some (JObj [(''processed_lines'',
           JNum (current_line b + int (length ls)
                 - int (length (takeWhile (\<lambda>l. \<not> accepted repr l) (rev ls)))))]))"
      by (simp add: s_def)
    then show ?thesis
      unfolding step index_line_rejected [OF False] using False by simp
  next
    case True
    then obtain e where e: "read_record repr l = Inr (Some e)"
      by (auto simp: accepted_iff)
    have wr: "cp_writable (snd s)"
      using foldl_counts [OF assms(2,3), where repr = repr and cp = cp and w = w and ls = ls] assms(1)
      by (simp add: s_def)
    from snoc.prems(2) show ?thesis
      unfolding step index_line_accepted [OF e] Let_def
      using wr cl True by (simp add: save_checkpoint_written split: if_splits)
  qed
qed

lemma index_rest_general:
  assumes B: "0 < B" and wr: "cp_writable w"
  shows "int (length (upsert_calls (index_rest repr B cp start rest w))) =
           int (length (upsert_calls w)) + \<lceil>real (length (filter (accepted repr) rest)) / real_of_int B\<rceil>"
    and "filter (accepted repr) rest \<noteq> [] \<Longrightarrow>
         checkpoints (index_rest repr B cp start rest w) cp =
           Content (Some (JObj [(''processed_lines'',
             JNum (start + int (length rest)
                   - (if length (filter (accepted repr) rest) mod nat B = 0
                      then int (length (takeWhile (\<lambda>l. \<not> accepted repr l) (rev rest))) else 0)))]))"
    and "filter (accepted repr) rest = [] \<Longrightarrow> index_rest repr B cp start rest w = w"
    and "stores (index_rest repr B cp start rest w) = stores w"
    and "cp_writable (index_rest repr B cp start rest w) = cp_writable w"
proof -
  define b0 where "b0 = \<lparr>documents = [], metadatas = [], ids = [], current_line = start\<rparr>"
  define s where "s = foldl (index_line repr B cp) (b0, w) rest"
  define n where "n = length (filter (accepted repr) rest)"
  have b0: "int (length (documents b0)) < B" using B by (simp add: b0_def)
  note cnt = foldl_counts [OF B b0, where repr = repr and cp = cp and w = w and ls = rest, folded s_def]
  have cl: "current_line (fst s) = start + int (length rest)"
    by (simp add: s_def current_line_foldl b0_def)
  have unf: "index_rest repr B cp start rest w =
      (if documents (fst s) \<noteq> [] then save_checkpoint cp (current_line (fst s)) (upsert (fst s) (snd s))
       else snd s)"
    by (simp add: index_rest_def s_def b0_def Let_def)
  have k: "0 < nat B" "real_of_int B = real (nat B)" using B by simp_all
  have docs: "documents (fst s) \<noteq> [] \<longleftrightarrow> n mod nat B \<noteq> 0"
    using cnt by (simp add: b0_def n_def flip: length_0_conv)
  show "int (length (upsert_calls (index_rest repr B cp start rest w))) =
           int (length (upsert_calls w)) + \<lceil>real (length (filter (accepted repr) rest)) / real_of_int B\<rceil>"
    unfolding unf k(2) ceiling_batches [OF k(1), symmetric]
    using cnt docs by (simp add: b0_def n_def)
  show "stores (index_rest repr B cp start rest w) = stores w"
    unfolding unf using cnt by simp
  show "cp_writable (index_rest repr B cp start rest w) = cp_writable w"
    unfolding unf using cnt by simp
  show "index_rest repr B cp start rest w = w" if "filter (accepted repr) rest = []"
    using foldl_rejected [OF that, where B = B and cp = cp and b = b0 and w = w] by (simp add: index_rest_def b0_def Let_def)
  show "checkpoints (index_rest repr B cp start rest w) cp =
           Content (Some (JObj [(''processed_lines'',
             JNum (start + int (length rest)
                   - (if length (filter (accepted repr) rest) mod nat B = 0
                      then int (length (takeWhile (\<lambda>l. \<not> accepted repr l) (rev rest))) else 0)))]))"
    if ne: "filter (accepted repr) rest \<noteq> []"
  proof (cases "documents (fst s) = []")
    case True
    have "checkpoints (snd s) cp =
        Content (Some (JObj [(''processed_lines'',
          JNum (current_line b0 + int (length rest)
                - int (length (takeWhile (\<lambda>l. \<not> accepted repr l) (rev rest)))))]))"
      unfolding s_def
      by (rule foldl_checkpoint [OF wr B b0 ne]) (use True in \<open>simp add: s_def\<close>)
    then show ?thesis unfolding unf using True docs by (simp add: b0_def n_def)
  next
    case False
    have "cp_writable (upsert (fst s) (snd s))" using cnt wr by simp
    then show ?thesis unfolding unf using False cl docs by (simp add: save_checkpoint_written n_def)
  qed
qed

text \<open>
  Claim C1, as the code has it. Let the metadata file hold \<open>lines\<close>, let the checkpoint
  load as \<open>start_line\<close> (0 for an absent checkpoint file), let \<open>rest\<close> be the lines after the
  first \<open>start_line\<close> ones, \<open>N\<close> the number of accepted lines among them and \<open>trailing\<close> the
  number of rejected lines after the last accepted one. With a batch size \<open>B > 0\<close> and a
  writable checkpoint, \<^verbatim>\<open>index_papers\<close> returns and has issued exactly \<open>\<lceil>N / B\<rceil>\<close> further upsert
  calls. The checkpoint is written only together with an upsert: for \<open>N = 0\<close> it is left as
  it was; otherwise it holds the number of lines of the file, less \<open>trailing\<close> when \<open>N\<close> is a
  multiple of \<open>B\<close>. When no rejected line trails, the checkpoint loads as the number of lines
  of the file. The scenario of the test (4 records and batch size 2, then 6 more) is the
  witness.
\<close>

theorem batch_count_law:
  assumes "stores w metadata_file = Some lines"
    and "as_int (load_checkpoint (checkpoints w (get_checkpoint_path metadata_file))) = Some start_line"
    and "0 \<le> start_line" and "start_line \<le> int (length lines)"
    and "cp_writable w" and "0 < B"
    and "rest = drop (nat start_line) lines"
    and "N = length (filter (accepted repr) rest)"
    and "trailing = length (takeWhile (\<lambda>l. \<not> accepted repr l) (rev rest))"
  shows "\<exists>w'. index_papers repr metadata_file B w = Inr w' \<and>
           int (length (upsert_calls w')) = int (length (upsert_calls w)) + \<lceil>real N / real_of_int B\<rceil> \<and>
           checkpoints w' (get_checkpoint_path metadata_file) =
             (if N = 0 then checkpoints w (get_checkpoint_path metadata_file)
              else Content (Some (JObj [(''processed_lines'',
                     JNum (int (length lines) - (if N mod nat B = 0 then int trailing else 0)))]))) \<and>
           (trailing = 0 \<longrightarrow>
              as_int (load_checkpoint (checkpoints w' (get_checkpoint_path metadata_file))) =
                Some (int (length lines))) \<and>
           stores w' = stores w \<and> cp_writable w' = cp_writable w"
proof -
  define cp where "cp = get_checkpoint_path metadata_file"
  have rest': "(if start_line > 0 then drop (nat start_line) lines else lines) = rest"
    using assms(3,7) by auto
  have run: "index_papers repr metadata_file B w = Inr (index_rest repr B cp start_line rest w)"
    using assms(1,2) by (simp add: index_papers_def Let_def rest' flip: cp_def)
  note r = index_rest_general [OF assms(6,5), where repr = repr and cp = cp and start = start_line and rest = rest]
  have len: "start_line + int (length rest) = int (length lines)"
    using assms(3,4,7) by simp
  have N0: "N = 0 \<longleftrightarrow> filter (accepted repr) rest = []"
    using assms(8) by simp
  have cpf: "checkpoints (index_rest repr B cp start_line rest w) cp =
             (if N = 0 then checkpoints w cp
              else Content (Some (JObj [(''processed_lines'',
                     JNum (int (length lines) - (if N mod nat B = 0 then int trailing else 0)))])))"
  proof (cases "N = 0")
    case True
    then show ?thesis using r(3) N0 by simp
  next
    case False
    then show ?thesis using r(2) N0 len assms(8,9) by simp
  qed
  have cpv: "as_int (load_checkpoint (checkpoints (index_rest repr B cp start_line rest w) cp)) =
      Some (int (length lines))" if t: "trailing = 0"
  proof (cases "N = 0")
    case True
    have "rest = []"
    proof (rule ccontr)
      assume "rest \<noteq> []"
      then obtain xs x where xs: "rest = xs @ [x]" by (metis rev_exhaust)
      with t assms(9) have "accepted repr x" by (auto split: if_splits)
      with xs True N0 show False by simp
    qed
    then have "start_line = int (length lines)" using len by simp
    with True show ?thesis unfolding cpf using assms(2) by (simp add: cp_def)
  next
    case False
    then show ?thesis unfolding cpf using t by (simp add: dict_get_def)
  qed
  show ?thesis
    unfolding run cp_def [symmetric]
    using r(1,4,5) cpf cpv assms(8) by blast
qed

lemma str_nat_nonempty: "str_nat n \<noteq> []"
  by (subst str_nat.simps) simp

lemma accepted_test_record: "accepted repr (test_record i)"
  by (simp add: accepted_def read_record_def test_record_def dict_get_def str_nat_nonempty)

lemma filter_accepted_test_records:
  "filter (accepted repr) (map test_record xs) = map test_record xs"
  by (simp add: filter_id_conv accepted_test_record)

lemma trailing_test_records:
  "takeWhile (\<lambda>l. \<not> accepted repr l) (rev (map test_record xs)) = []"
  by (cases "rev xs") (simp_all add: rev_map accepted_test_record)

theorem batch_count_law_witness:
  "\<exists>w1 w2.
     index_papers str_unused ''metadata.jsonl'' 2 (test_world (map test_record [0..<4])) = Inr w1 \<and>
     length (upsert_calls w1) = 2 \<and>
     checkpoints w1 ''metadata.jsonl.checkpoint'' = Content (Some (JObj [(''processed_lines'', JNum 4)])) \<and>
     index_papers str_unused ''metadata.jsonl'' 2
       (w1\<lparr>stores := (stores w1)(''metadata.jsonl'' := Some (map test_record [0..<10]))\<rparr>) = Inr w2 \<and>
     length (upsert_calls w2) = length (upsert_calls w1) + 3 \<and>
     checkpoints w2 ''metadata.jsonl.checkpoint'' = Content (Some (JObj [(''processed_lines'', JNum 10)]))"
proof -
  define f where "f = ''metadata.jsonl''"
  have cp: "get_checkpoint_path f = ''metadata.jsonl.checkpoint''"
    by (simp add: get_checkpoint_path_def f_def)
  define w0 where "w0 = test_world (map test_record [0..<4])"
  have "\<exists>w'. index_papers str_unused f 2 w0 = Inr w' \<and>
           int (length (upsert_calls w')) = int (length (upsert_calls w0)) + \<lceil>real (4::nat) / real_of_int 2\<rceil> \<and>
           checkpoints w' (get_checkpoint_path f) =
             (if (4::nat) = 0 then checkpoints w0 (get_checkpoint_path f)
              else Content (Some (JObj [(''processed_lines'',
                     JNum (int (length (map test_record [0..<4]))
                           - (if (4::nat) mod nat 2 = 0 then int 0 else 0)))]))) \<and>
           ((0::nat) = 0 \<longrightarrow>
              as_int (load_checkpoint (checkpoints w' (get_checkpoint_path f))) =
                Some (int (length (map test_record [0..<4])))) \<and>
           stores w' = stores w0 \<and> cp_writable w' = cp_writable w0"
    by (rule batch_count_law [where start_line = 0 and rest = "map test_record [0..<4]"])
       (simp_all add: w0_def test_world_def f_def accepted_test_record filter_accepted_test_records
          trailing_test_records)
  then obtain w1 where w1: "index_papers str_unused f 2 w0 = Inr w1"
    "length (upsert_calls w1) = 2"
    "checkpoints w1 (get_checkpoint_path f) = Content (Some (JObj [(''processed_lines'', JNum 4)]))"
    "stores w1 = stores w0" "cp_writable w1"
    by (auto simp: w0_def test_world_def)
  define w1' where "w1' = w1\<lparr>stores := (stores w1)(f := Some (map test_record [0..<10]))\<rparr>"
  have d: "drop 4 (map test_record [0..<10]) = map test_record [4..<10]"
    by (simp add: drop_map)
  have "\<exists>w'. index_papers str_unused f 2 w1' = Inr w' \<and>
           int (length (upsert_calls w')) = int (length (upsert_calls w1')) + \<lceil>real (6::nat) / real_of_int 2\<rceil> \<and>
           checkpoints w' (get_checkpoint_path f) =
             (if (6::nat) = 0 then checkpoints w1' (get_checkpoint_path f)
              else Content (Some (JObj [(''processed_lines'',
                     JNum (int (length (map test_record [0..<10]))
                           - (if (6::nat) mod nat 2 = 0 then int 0 else 0)))]))) \<and>
           ((0::nat) = 0 \<longrightarrow>
              as_int (load_checkpoint (checkpoints w' (get_checkpoint_path f))) =
                Some (int (length (map test_record [0..<10])))) \<and>
           stores w' = stores w1' \<and> cp_writable w' = cp_writable w1'"
    by (rule batch_count_law [where start_line = 4 and rest = "map test_record [4..<10]"])
       (simp_all add: w1'_def w1 dict_get_def d accepted_test_record filter_accepted_test_records
          trailing_test_records)
  then obtain w2 where w2: "index_papers str_unused f 2 w1' = Inr w2"
    "length (upsert_calls w2) = length (upsert_calls w1) + 3"
    "checkpoints w2 (get_checkpoint_path f) = Content (Some (JObj [(''processed_lines'', JNum 10)]))"
    by (auto simp: w1'_def)
  from w1(1-3) w2 show ?thesis
    unfolding cp unfolding w0_def w1'_def f_def by blast
qed

text \<open>
  The claim as stated fails on a store whose last line is rejected: with one accepted line
  followed by a line that is no JSON and batch size 1, one upsert is issued and the
  checkpoint holds 1, while two lines were read.
\<close>

theorem trailing_rejected_line_counterexample:
  "accepted str_unused (test_record 0) \<and> \<not> accepted str_unused None
   \<and> \<not> isl (index_papers str_unused ''metadata.jsonl'' 1 (test_world [test_record 0, None]))
   \<and> length (upsert_calls
        (projr (index_papers str_unused ''metadata.jsonl'' 1 (test_world [test_record 0, None])))) = 1
   \<and> checkpoints
        (projr (index_papers str_unused ''metadata.jsonl'' 1 (test_world [test_record 0, None])))
        ''metadata.jsonl.checkpoint'' = Content (Some (JObj [(''processed_lines'', JNum 1)]))
   \<and> length [test_record 0, None] = 2"
proof -
  have a: "accepted str_unused (test_record 0)" by (rule accepted_test_record)
  have r: "\<not> accepted str_unused None" by (simp add: accepted_def read_record_def)
  obtain e where e: "read_record str_unused (test_record 0) = Inr (Some e)"
    using a by (auto simp: accepted_iff)
  have "index_papers str_unused ''metadata.jsonl'' 1 (test_world [test_record 0, None]) =
        Inr (index_rest str_unused 1 ''metadata.jsonl.checkpoint'' 0 [test_record 0, None]
               (test_world [test_record 0, None]))"
    by (simp add: index_papers_def test_world_def get_checkpoint_path_def Let_def)
  moreover have "length (upsert_calls (index_rest str_unused 1 ''metadata.jsonl.checkpoint'' 0
       [test_record 0, None] (test_world [test_record 0, None]))) = 1"
    by (simp add: index_rest_def index_line_accepted [OF e] index_line_rejected [OF r] Let_def
          test_world_def)
  moreover have "checkpoints (index_rest str_unused 1 ''metadata.jsonl.checkpoint'' 0
       [test_record 0, None] (test_world [test_record 0, None])) ''metadata.jsonl.checkpoint'' =
       Content (Some (JObj [(''processed_lines'', JNum 1)]))"
    by (simp add: index_rest_def index_line_accepted [OF e] index_line_rejected [OF r] Let_def
          test_world_def save_checkpoint_def)
  ultimately show ?thesis using a r by simp
qed

text \<open>
  Claim C3. A line that is no JSON, that parses to something without a truthy \<^verbatim>\<open>pmid\<close>
  (or to no dict at all), or whose title and abstract are both empty, adds nothing to the
  batch, causes no upsert and no checkpoint write, and advances the line counter by one.
  The counter is what the next checkpoint write stores: when the following line is accepted
  and fills the batch, the checkpoint holds the position of that following line, two past
  the counter before the rejected line; otherwise the following line leaves the checkpoint
  as it was.
\<close>

theorem rejected_line_only_advances_counter:
  assumes "line = None
         \<or> (\<exists>data. line = Some data \<and> (\<forall>d. data \<noteq> JObj d))
         \<or> (\<exists>d. line = Some (JObj d) \<and>
              (\<not> truthy (dict_get d ''pmid'' JNull)
               \<or> (\<not> truthy (dict_get d ''title'' (JStr [])) \<and> \<not> truthy (dict_get d ''abstract'' (JStr [])))))"
  shows "index_line repr B cp (b, w) line = (b\<lparr>current_line := current_line b + 1\<rparr>, w)
       \<and> checkpoints (snd (index_line repr B cp (index_line repr B cp (b, w) line) nxt)) cp =
           (if accepted repr nxt \<and> B \<le> int (length (documents b)) + 1 \<and> cp_writable w
            then Content (Some (JObj [(''processed_lines'', JNum (current_line b + 2))]))
            else checkpoints w cp)"
proof -
  have rej: "\<not> accepted repr line"
    using assms by (auto simp: accepted_dict)
  have one: "index_line repr B cp (b, w) line = (b\<lparr>current_line := current_line b + 1\<rparr>, w)"
    by (rule index_line_rejected [OF rej])
  have two: "checkpoints (snd (index_line repr B cp (b\<lparr>current_line := current_line b + 1\<rparr>, w) nxt)) cp =
           (if accepted repr nxt \<and> B \<le> int (length (documents b)) + 1 \<and> cp_writable w
            then Content (Some (JObj [(''processed_lines'', JNum (current_line b + 2))]))
            else checkpoints w cp)"
  proof (cases "accepted repr nxt")
    case False
    then show ?thesis by (simp add: index_line_rejected)
  next
    case True
    then obtain e where e: "read_record repr nxt = Inr (Some e)" by (auto simp: accepted_iff)
    show ?thesis using True by (simp add: index_line_accepted [OF e] Let_def save_checkpoint_def)
  qed
  show ?thesis unfolding one using two by simp
qed

theorem rejected_line_only_advances_counter_witness:
  "index_line str_unused 1 ''metadata.jsonl.checkpoint''
     (\<lparr>documents = [], metadatas = [], ids = [], current_line = 0\<rparr>, test_world [None, test_record 0]) None
     = (\<lparr>documents = [], metadatas = [], ids = [], current_line = 1\<rparr>, test_world [None, test_record 0])
   \<and> checkpoints
       (snd (index_line str_unused 1 ''metadata.jsonl.checkpoint''
               (index_line str_unused 1 ''metadata.jsonl.checkpoint''
                  (\<lparr>documents = [], metadatas = [], ids = [], current_line = 0\<rparr>,
                   test_world [None, test_record 0]) None)
               (test_record 0)))
       ''metadata.jsonl.checkpoint'' = Content (Some (JObj [(''processed_lines'', JNum 2)]))"
proof -
  have cw: "cp_writable (test_world [None, test_record 0])"
    by (simp add: test_world_def)
  show ?thesis
    using rejected_line_only_advances_counter
      [of None str_unused 1 "''metadata.jsonl.checkpoint''"
          "\<lparr>documents = [], metadatas = [], ids = [], current_line = 0\<rparr>"
          "test_world [None, test_record 0]" "test_record 0"]
    by (auto simp: accepted_test_record cw)
qed

text \<open>
  Claim C9. A checkpoint file that is absent, unreadable, no JSON, or JSON without a
  \<^verbatim>\<open>processed_lines\<close> field loads as 0 and raises nothing; \<^verbatim>\<open>index_papers\<close> then
  processes the whole metadata file, starting with the line counter at 0.
\<close>

theorem load_checkpoint_fallback:
  assumes "cp = Absent \<or> cp = Unreadable \<or> cp = Content None
         \<or> (\<exists>data. cp = Content (Some data) \<and> (\<forall>d. data = JObj d \<longrightarrow> map_of d ''processed_lines'' = None))"
  shows "load_checkpoint cp = JNum 0
       \<and> (stores w metadata_file = Some lines \<and> checkpoints w (get_checkpoint_path metadata_file) = cp \<longrightarrow>
            index_papers repr metadata_file B w =
              Inr (index_rest repr B (get_checkpoint_path metadata_file) 0 lines w))"
proof -
  have z: "load_checkpoint cp = JNum 0"
  proof -
    have "load_checkpoint (Content (Some data)) = JNum 0"
      if "\<forall>d. data = JObj d \<longrightarrow> map_of d ''processed_lines'' = None" for data
      using that by (cases data) (simp_all add: dict_get_def)
    with assms show ?thesis by auto
  qed
  then show ?thesis by (simp add: index_papers_def Let_def)
qed

theorem load_checkpoint_fallback_witness:
  "load_checkpoint (Content None) = JNum 0
   \<and> index_papers str_unused ''metadata.jsonl'' 2
       ((test_world (map test_record [0..<4]))\<lparr>checkpoints := (\<lambda>p. Content None)\<rparr>) =
     Inr (index_rest str_unused 2 (get_checkpoint_path ''metadata.jsonl'') 0 (map test_record [0..<4])
            ((test_world (map test_record [0..<4]))\<lparr>checkpoints := (\<lambda>p. Content None)\<rparr>))"
  using load_checkpoint_fallback
    [of "Content None" "(test_world (map test_record [0..<4]))\<lparr>checkpoints := (\<lambda>p. Content None)\<rparr>"
        "''metadata.jsonl''" "map test_record [0..<4]" str_unused 2]
  by (simp add: test_world_def)

subsection \<open>Query and the document template\<close>

lemma str_contains_iff: "str_contains sep s \<longleftrightarrow> (\<exists>u v. s = u @ sep @ v)"
proof (induction s)
  case Nil
  then show ?case by auto
next
  case (Cons c cs)
  have "(\<exists>u v. c # cs = u @ sep @ v) \<longleftrightarrow>
        (\<exists>v. c # cs = sep @ v) \<or> (\<exists>u v. cs = u @ sep @ v)"
  proof
    assume "\<exists>u v. c # cs = u @ sep @ v"
    then obtain u v where uv: "c # cs = u @ sep @ v" by blast
    show "(\<exists>v. c # cs = sep @ v) \<or> (\<exists>u v. cs = u @ sep @ v)"
    proof (cases u)
      case Nil
      with uv show ?thesis by auto
    next
      case (Cons a u')
      with uv show ?thesis by auto
    qed
  next
    assume "(\<exists>v. c # cs = sep @ v) \<or> (\<exists>u v. cs = u @ sep @ v)"
    then show "\<exists>u v. c # cs = u @ sep @ v"
    proof
      assume "\<exists>v. c # cs = sep @ v"
      then show ?thesis by (metis append_Nil)
    next
      assume "\<exists>u v. cs = u @ sep @ v"
      then show ?thesis by (metis append_Cons)
    qed
  qed
  moreover have "(take (length sep) (c # cs) = sep) \<longleftrightarrow> (\<exists>v. c # cs = sep @ v)"
    by (metis append_eq_conv_conj append_take_drop_id)
  ultimately show ?case using Cons.IH by simp
qed

lemma take_sep_blocked:
  assumes "x \<notin> set sep" and "take (length sep) t \<noteq> sep"
  shows "take (length sep) (t @ x # rest) \<noteq> sep"
proof (cases "length sep \<le> length t")
  case True
  then show ?thesis using assms(2) by simp
next
  case False
  then have "x \<in> set (take (length sep) (t @ x # rest))"
    by (cases "length sep - length t") auto
  with assms(1) show ?thesis by metis
qed

lemma split_once_after:
  assumes "x \<notin> set sep" and "\<not> str_contains sep t"
  shows "split_once sep (t @ x # sep @ a) = [t @ [x], a] \<and> str_contains sep (t @ x # sep @ a)"
  using assms(2)
proof (induction t)
  case Nil
  then obtain s sep' where sep: "sep = s # sep'" by (cases sep) auto
  have "x \<noteq> s" using assms(1) sep by auto
  then show ?case by (simp add: sep)
next
  case (Cons c t)
  then have tk: "take (length sep) (c # t) \<noteq> sep" and nt: "\<not> str_contains sep t" by auto
  have "take (length sep) ((c # t) @ x # sep @ a) \<noteq> sep"
    by (rule take_sep_blocked [OF assms(1) tk])
  then show ?case using Cons.IH [OF nt] by simp
qed

lemma split_once_skip:
  assumes "sep = s # sep'" and "c \<noteq> s"
  shows "split_once sep (c # cs) = (case split_once sep cs of [] \<Rightarrow> [[c]] | u # rest \<Rightarrow> (c # u) # rest)"
    and "str_contains sep (c # cs) = str_contains sep cs"
  using assms by auto

lemma parse_abstract_template:
  assumes "\<not> str_contains ''Abstract: '' title"
  shows "parse_abstract (''Title: '' @ title @ [CHR 0x0A] @ ''Abstract: '' @ abstract) = abstract"
proof -
  have nl: "CHR 0x0A \<notin> set ''Abstract: ''" by simp
  note a = split_once_after [OF nl assms, of abstract]
  have sep: "''Abstract: '' = CHR ''A'' # ''bstract: ''" by simp
  note sk = split_once_skip [OF sep]
  have s: "split_once ''Abstract: '' (''Title: '' @ title @ [CHR 0x0A] @ ''Abstract: '' @ abstract)
        = [''Title: '' @ title @ [CHR 0x0A], abstract]"
    using a by (simp add: sk del: split_once.simps)
  have c: "str_contains ''Abstract: '' (''Title: '' @ title @ [CHR 0x0A] @ ''Abstract: '' @ abstract)"
    using a by (simp add: sk del: str_contains.simps)
  show ?thesis unfolding parse_abstract_def using s c by (simp del: split_once.simps str_contains.simps)
qed

text \<open>
  Claim C10. For a record that \<^verbatim>\<open>index_papers\<close> accepts, with a string title that has no
  occurrence of \<^verbatim>\<open>"Abstract: "\<close> and a string abstract, the stored document is
  \<^verbatim>\<open>"Title: " + title + "\n" + "Abstract: " + abstract\<close>, and \<^verbatim>\<open>query\<close>, given that
  document back by the index, returns a candidate whose abstract is the record's abstract.
\<close>

theorem abstract_round_trip:
  assumes "read_record repr (Some (JObj d)) = Inr (Some e)"
    and "dict_get d ''title'' (JStr []) = JStr title"
    and "dict_get d ''abstract'' (JStr []) = JStr abstract"
    and "\<not> str_contains ''Abstract: '' title"
  shows "entry_doc e = ''Title: '' @ title @ [CHR 0x0A] @ ''Abstract: '' @ abstract
       \<and> (\<exists>c. query \<lparr>res_ids = [[entry_id e]], res_metadatas = [[entry_meta e]],
                       res_documents = [[entry_doc e]]\<rparr> = Inr [c]
              \<and> cand_pmid c = dict_get d ''pmid'' JNull \<and> cand_abstract c = abstract)"
proof -
  from assms(1-3) have e: "entry_doc e = ''Title: '' @ title @ [CHR 0x0A] @ ''Abstract: '' @ abstract"
    and i: "entry_id e = dict_get d ''pmid'' JNull"
    by (auto simp: read_record_def doc_text_def split: if_splits sum.splits)
  have "parse_abstract (entry_doc e) = abstract"
    unfolding e by (rule parse_abstract_template [OF assms(4)])
  then show ?thesis using e i
    by (simp add: query_def first_def item_def make_candidate_def)
qed

theorem abstract_round_trip_witness:
  "\<exists>e c. read_record str_unused (test_record 7) = Inr (Some e)
       \<and> entry_doc e = ''Title: Title 7'' @ [CHR 0x0A] @ ''Abstract: Abs 7''
       \<and> query \<lparr>res_ids = [[entry_id e]], res_metadatas = [[entry_meta e]],
                 res_documents = [[entry_doc e]]\<rparr> = Inr [c]
       \<and> cand_abstract c = ''Abs 7''"
proof -
  have s: "str_nat 7 = ''7''" by code_simp
  obtain e where e: "read_record str_unused (test_record 7) = Inr (Some e)"
    using accepted_test_record [of str_unused 7] by (auto simp: accepted_iff)
  have n: "\<not> str_contains ''Abstract: '' ''Title 7''" by simp
  from abstract_round_trip [of str_unused _ e "''Title 7''" "''Abs 7''", OF e [unfolded test_record_def] _ _ n]
  show ?thesis using e by (auto simp: dict_get_def s)
qed

lemma candidates_from_enumerate:
  assumes "i + length ids0 \<le> length metas" and "i + length ids0 \<le> length docs"
  shows "candidates_from metas docs i ids0 =
           Inr (map (\<lambda>(k, doc_id). make_candidate doc_id (metas ! k) (docs ! k)) (List.enumerate i ids0))"
  using assms by (induction ids0 arbitrary: i) (simp_all add: item_def)

text \<open>
  Claim C8. On a result whose first id list is not empty (with a metadata and a document
  for every id), \<^verbatim>\<open>query\<close> of the package returns one candidate per id, whose title,
  journal and year come from the metadata at the same position of that result, while
  \<^verbatim>\<open>query\<close> of the top-level module raises NameError: the two differ.
\<close>

theorem query_variants_differ:
  assumes "res_ids r = ids0 # more_ids" and "ids0 \<noteq> []"
    and "res_metadatas r = metas # more_metas" and "res_documents r = docs # more_docs"
    and "length ids0 \<le> length metas" and "length ids0 \<le> length docs"
  shows "query r = Inr (map (\<lambda>(k, doc_id).
                         \<lparr>cand_pmid = doc_id,
                          cand_title = dict_get (metas ! k) ''title'' (JStr []),
                          cand_journal = dict_get (metas ! k) ''journal'' (JStr []),
                          cand_year = dict_get (metas ! k) ''year'' (JStr []),
                          cand_abstract = parse_abstract (docs ! k),
                          cand_authors = []\<rparr>) (List.enumerate 0 ids0))
       \<and> query_toplevel r = Inl NameError
       \<and> query r \<noteq> query_toplevel r"
proof -
  have q: "query r = candidates_from metas docs 0 ids0"
    using assms(1,3,4) by (simp add: query_def first_def)
  have t: "query_toplevel r = Inl NameError"
    using assms(1-4) by (cases ids0) (simp_all add: query_toplevel_def first_def)
  show ?thesis
    unfolding q t using candidates_from_enumerate [of 0 ids0 metas docs] assms(5,6)
    by (simp add: make_candidate_def)
qed

theorem query_variants_differ_witness:
  "query test_query_result =
     Inr [\<lparr>cand_pmid = JStr ''12345'', cand_title = JStr ''Test Title'',
           cand_journal = JStr ''Test Journal'', cand_year = JStr ''2023'',
           cand_abstract = ''Test Abstract'', cand_authors = []\<rparr>]
   \<and> query_toplevel test_query_result = Inl NameError"
  using query_variants_differ [of test_query_result "[JStr ''12345'']" "[]"
      "[[(''title'', JStr ''Test Title''), (''journal'', JStr ''Test Journal''), (''year'', JStr ''2023'')]]" "[]"
      "[''Title: Test Title'' @ [CHR 0x0A] @ ''Abstract: Test Abstract'']" "[]"]
  by (simp add: test_query_result_def List.enumerate_eq_zip dict_get_def parse_abstract_def)

subsection \<open>Reset\<close>

text \<open>
  Claim C7. After \<^verbatim>\<open>reset_db\<close> the checkpoint file of the store is absent, the collection
  has been deleted and created again and is empty, and the next \<^verbatim>\<open>index_papers\<close> processes
  the whole metadata file with the line counter starting at 0.
\<close>

theorem reset_db_restarts:
  "checkpoints (reset_db metadata_file w) (get_checkpoint_path metadata_file) = Absent
   \<and> collection (reset_db metadata_file w) = (\<lambda>i. None)
   \<and> client_calls (reset_db metadata_file w) =
       client_calls w @ [DeleteCollection ''pubmed_papers'', GetOrCreateCollection ''pubmed_papers'']
   \<and> (stores w metadata_file = Some lines \<longrightarrow>
        index_papers repr metadata_file B (reset_db metadata_file w) =
          Inr (index_rest repr B (get_checkpoint_path metadata_file) 0 lines (reset_db metadata_file w)))"
  by (simp add: reset_db_def index_papers_def COLLECTION_NAME_def Let_def)

theorem reset_db_restarts_witness:
  "checkpoints
     (reset_db ''metadata.jsonl''
        ((test_world (map test_record [0..<4]))
           \<lparr>checkpoints := (\<lambda>p. Content (Some (JObj [(''processed_lines'', JNum 4)])))\<rparr>))
     ''metadata.jsonl.checkpoint'' = Absent
   \<and> index_papers str_unused ''metadata.jsonl'' 2
       (reset_db ''metadata.jsonl''
          ((test_world (map test_record [0..<4]))
             \<lparr>checkpoints := (\<lambda>p. Content (Some (JObj [(''processed_lines'', JNum 4)])))\<rparr>)) =
     Inr (index_rest str_unused 2 ''metadata.jsonl.checkpoint'' 0 (map test_record [0..<4])
            (reset_db ''metadata.jsonl''
               ((test_world (map test_record [0..<4]))
                  \<lparr>checkpoints := (\<lambda>p. Content (Some (JObj [(''processed_lines'', JNum 4)])))\<rparr>)))"
  using reset_db_restarts
    [of "''metadata.jsonl''"
        "(test_world (map test_record [0..<4]))
           \<lparr>checkpoints := (\<lambda>p. Content (Some (JObj [(''processed_lines'', JNum 4)])))\<rparr>"
        "map test_record [0..<4]" str_unused 2]
  by (simp add: test_world_def get_checkpoint_path_def)

section \<open>Properties of the record codec\<close>

lemma parse_article_None_iff:
  "parse_article elem = None \<longleftrightarrow>
     (\<forall>medline. find_elem elem ''MedlineCitation'' = Some medline \<longrightarrow> find_elem medline ''Article'' = None)"
  by (simp add: parse_article_def Let_def split: option.splits)

lemma parse_article_pmid:
  "parse_article elem = Some p \<Longrightarrow>
   \<exists>medline. find_elem elem ''MedlineCitation'' = Some medline
     \<and> paper_pmid p = extract_text (find_elem medline ''PMID'')"
  by (auto simp: parse_article_def Let_def split: option.splits)

lemma extract_text_empty:
  "(case e of None \<Rightarrow> True | Some x \<Rightarrow> \<not> has_text x) \<Longrightarrow> extract_text e = []"
  by (simp add: extract_text_def split: option.splits)

lemma process_file_writes:
  "parse_article elem = Some p \<Longrightarrow> Some (paper_json p) \<in> set (process_file (before @ elem # after) out_f)"
  by (simp add: process_file_def)

text \<open>
  For a line that the codec wrote, acceptance by the indexer is: the id is not empty and the
  title or the abstract is not empty.
\<close>

lemma accepted_paper_json:
  "accepted repr (Some (paper_json p)) \<longleftrightarrow>
     paper_pmid p \<noteq> [] \<and> (paper_title p \<noteq> [] \<or> paper_abstract p \<noteq> [])"
  by (simp add: accepted_dict paper_json_def dict_get_def)

lemma empty_pmid_not_accepted:
  "paper_pmid p = [] \<Longrightarrow> \<not> accepted repr (Some (paper_json p))"
  by (simp add: accepted_dict paper_json_def dict_get_def)

text \<open>
  Claim C2, as the code has it. \<^verbatim>\<open>parse_article\<close> returns None exactly when the element
  has no MedlineCitation or the citation has no Article. An element that has both, with
  the PMID absent or empty, yields a record whose \<^verbatim>\<open>pmid\<close> is the empty string;
  \<^verbatim>\<open>process_file\<close> writes that record to the store, and \<^verbatim>\<open>index_papers\<close> skips its line.
\<close>

theorem parse_article_keeps_record_without_pmid:
  "(parse_article elem = None \<longleftrightarrow>
      (\<forall>medline. find_elem elem ''MedlineCitation'' = Some medline \<longrightarrow>
                 find_elem medline ''Article'' = None))
   \<and> (find_elem elem ''MedlineCitation'' = Some medline
        \<and> find_elem medline ''Article'' = Some article
        \<and> (case find_elem medline ''PMID'' of None \<Rightarrow> True | Some e \<Rightarrow> \<not> has_text e) \<longrightarrow>
      (\<exists>p. parse_article elem = Some p \<and> paper_pmid p = []
          \<and> Some (paper_json p) \<in> set (process_file (before @ elem # after) out_f)
          \<and> \<not> accepted repr (Some (paper_json p))))"
proof (intro conjI impI)
  show "parse_article elem = None \<longleftrightarrow>
      (\<forall>medline. find_elem elem ''MedlineCitation'' = Some medline \<longrightarrow>
                 find_elem medline ''Article'' = None)"
    by (rule parse_article_None_iff)
next
  assume a: "find_elem elem ''MedlineCitation'' = Some medline
        \<and> find_elem medline ''Article'' = Some article
        \<and> (case find_elem medline ''PMID'' of None \<Rightarrow> True | Some e \<Rightarrow> \<not> has_text e)"
  then obtain p where p: "parse_article elem = Some p"
    using parse_article_None_iff [of elem] by (cases "parse_article elem") auto
  from parse_article_pmid [OF p] a
  have "paper_pmid p = extract_text (find_elem medline ''PMID'')" by simp
  then have e: "paper_pmid p = []" using extract_text_empty [of "find_elem medline ''PMID''"] a by simp
  show "\<exists>p. parse_article elem = Some p \<and> paper_pmid p = []
          \<and> Some (paper_json p) \<in> set (process_file (before @ elem # after) out_f)
          \<and> \<not> accepted repr (Some (paper_json p))"
    using p e process_file_writes [OF p] empty_pmid_not_accepted [OF e] by blast
qed

theorem parse_article_keeps_record_without_pmid_witness:
  "parse_article article_without_pmid \<noteq> None
   \<and> (\<exists>p. parse_article article_without_pmid = Some p \<and> paper_pmid p = []
        \<and> Some (paper_json p) \<in> set (process_file ([] @ article_without_pmid # []) [])
        \<and> \<not> accepted str_unused (Some (paper_json p)))"
  using parse_article_keeps_record_without_pmid
       [of article_without_pmid
           "Element ''MedlineCitation'' [] None
              [Element ''Article'' [] None [Element ''ArticleTitle'' [] (Some ''A title'') []]]"
           "Element ''Article'' [] None [Element ''ArticleTitle'' [] (Some ''A title'') []]"
           "[]" "[]" "[]" str_unused]
  by (simp add: article_without_pmid_def find_elem_def findall_def)

text \<open>
  The claim as stated fails on the element \<open>article_without_pmid\<close>: it is parsed to a record
  with an empty \<^verbatim>\<open>pmid\<close>, and that record is written to the store.
\<close>

theorem parse_article_empty_pmid_counterexample:
  "find_elem (Element ''MedlineCitation'' [] None
               [Element ''Article'' [] None [Element ''ArticleTitle'' [] (Some ''A title'') []]]) ''PMID'' = None
   \<and> parse_article article_without_pmid =
       Some \<lparr>paper_pmid = [], paper_title = ''A title'', paper_abstract = [], paper_authors = [],
             paper_journal = [], paper_year = [], paper_doi = [], paper_pmcid = [],
             paper_pub_types = [], paper_languages = [], paper_mesh_terms = [],
             paper_chemicals = [], paper_keywords = []\<rparr>
   \<and> process_file [article_without_pmid] [] =
       [Some (JObj [(''pmid'', JStr []), (''title'', JStr ''A title''), (''abstract'', JStr []),
                    (''authors'', JArr []), (''journal'', JStr []), (''year'', JStr []),
                    (''doi'', JStr []), (''pmcid'', JStr []), (''pub_types'', JArr []),
                    (''languages'', JArr []), (''mesh_terms'', JArr []), (''chemicals'', JArr []),
                    (''keywords'', JArr [])])]"
  by (simp add: article_without_pmid_def parse_article_def process_file_def paper_json_def
        find_elem_def findall_def extract_text_def has_text_def abstract_of_def authors_of_def
        journal_of_def article_ids_of_def texts_under_def mesh_terms_of_def Let_def)

section \<open>Properties of the fetcher\<close>

lemma attempt_once_requests:
  "snd (snd (attempt_once env local_file)) = [Head] \<or>
   snd (snd (attempt_once env local_file)) =
     [Head, Get (if file_size local_file > 0 then Some (file_size local_file) else None)]"
  by (simp add: attempt_once_def Let_def split: sum.splits get_outcome.splits option.splits)

lemma attempt_once_complete:
  assumes "probe (env_head env) = Inr total_size" and "0 < total_size" and "total_size \<le> int (file_size local_file)"
  shows "attempt_once env local_file = (Success, local_file, [Head])"
  using assms by (simp add: attempt_once_def Let_def)

lemma attempt_once_get:
  assumes "probe (env_head env) = Inr total_size" and "\<not> (0 < total_size \<and> total_size \<le> int (file_size local_file))"
  shows "snd (snd (attempt_once env local_file)) =
           [Head, Get (if file_size local_file > 0 then Some (file_size local_file) else None)]"
  using assms
  by (simp add: attempt_once_def Let_def split: sum.splits get_outcome.splits option.splits)

lemma attempt_once_response:
  assumes "probe (env_head env) = Inr total_size"
    and "\<not> (0 < total_size \<and> total_size \<le> int (file_size local_file))"
    and "env_get env = GetResponse status_code content_length chunks stream_end"
    and "\<not> (400 \<le> status_code \<and> status_code < 600)"
    and "update_total total_size content_length (if status_code = 200 then 0 else file_size local_file) = Inr total_size'"
    and "\<not> env_open_fails env"
  shows "attempt_once env local_file =
           (case stream_error chunks stream_end of
              Some e \<Rightarrow> handler e
            | None \<Rightarrow>
                if 0 < total_size' \<and>
                   int (length ((if status_code = 200 then []
                                 else (case local_file of None \<Rightarrow> [] | Some bytes \<Rightarrow> bytes))
                                @ received chunks)) < total_size'
                then Retry else Success,
            Some ((if status_code = 200 then []
                   else (case local_file of None \<Rightarrow> [] | Some bytes \<Rightarrow> bytes))
                  @ received chunks),
            [Head, Get (if file_size local_file > 0 then Some (file_size local_file) else None)])"
proof -
  have w: "(case local_file of None \<Rightarrow> []
            | Some bytes \<Rightarrow> if (if status_code = 200 then False else 0 < file_size local_file) then bytes else [])
           = (if status_code = 200 then [] else (case local_file of None \<Rightarrow> [] | Some bytes \<Rightarrow> bytes))"
    by (cases local_file) (auto simp: file_size_def)
  have c: "(0 < total_size \<and> total_size \<le> int (file_size local_file)) = False"
    "(400 \<le> status_code \<and> status_code < 600) = False" "env_open_fails env = False"
    using assms(2,4,6) by simp_all
  show ?thesis
    unfolding attempt_once_def Let_def assms(1) assms(3) sum.case get_outcome.case assms(5) w c if_False
    by (simp split: option.splits)
qed

lemma attempt_once_written:
  assumes "probe (env_head env) = Inr total_size"
    and "\<not> (0 < total_size \<and> total_size \<le> int (file_size local_file))"
    and "env_get env = GetResponse status_code content_length chunks stream_end"
    and "\<not> (400 \<le> status_code \<and> status_code < 600)"
    and "update_total total_size content_length (if status_code = 200 then 0 else file_size local_file) = Inr total_size'"
    and "\<not> env_open_fails env"
  shows "fst (snd (attempt_once env local_file)) =
           Some ((if status_code = 200 then [] else (case local_file of None \<Rightarrow> [] | Some bytes \<Rightarrow> bytes))
                 @ received chunks)"
  unfolding attempt_once_response [OF assms] by simp

lemma attempt_once_result:
  assumes "probe (env_head env) = Inr total_size"
    and "\<not> (0 < total_size \<and> total_size \<le> int (file_size local_file))"
    and "env_get env = GetResponse status_code content_length chunks stream_end"
    and "\<not> (400 \<le> status_code \<and> status_code < 600)"
    and "update_total total_size content_length (if status_code = 200 then 0 else file_size local_file) = Inr total_size'"
    and "\<not> env_open_fails env"
    and "stream_error chunks stream_end = None"
  shows "fst (attempt_once env local_file) =
           (if 0 < total_size' \<and> int (file_size (fst (snd (attempt_once env local_file)))) < total_size'
            then Retry else Success)"
  unfolding attempt_once_response [OF assms(1-6)] assms(7) by (simp add: file_size_def)

lemma run_attempts_retry:
  assumes "fst (attempt_once (env a) local_file) = Retry"
  shows "run_attempts env (a # rest) local_file =
           (run_attempts env rest (fst (snd (attempt_once (env a) local_file))))
             \<lparr>attempts := attempt_once (env a) local_file #
                  attempts (run_attempts env rest (fst (snd (attempt_once (env a) local_file)))),
               sleeps := 5 * 2 ^ a #
                  sleeps (run_attempts env rest (fst (snd (attempt_once (env a) local_file))))\<rparr>"
  using assms by (simp add: Let_def)

lemma run_attempts_abort:
  assumes "fst (attempt_once (env a) local_file) = Abort"
  shows "run_attempts env (a # rest) local_file =
           \<lparr>success = False, final_file = fst (snd (attempt_once (env a) local_file)),
            attempts = [attempt_once (env a) local_file], sleeps = []\<rparr>"
  using assms by (simp add: Let_def)

lemma run_attempts_success:
  assumes "fst (attempt_once (env a) local_file) = Success"
  shows "run_attempts env (a # rest) local_file =
           \<lparr>success = True, final_file = fst (snd (attempt_once (env a) local_file)),
            attempts = [attempt_once (env a) local_file], sleeps = []\<rparr>"
  using assms by (simp add: Let_def)

lemma run_attempts_exhausted:
  assumes "\<not> success (run_attempts env as local_file)"
    and "\<forall>t\<in>set (attempts (run_attempts env as local_file)). fst t \<noteq> Abort"
  shows "length (attempts (run_attempts env as local_file)) = length as
       \<and> sleeps (run_attempts env as local_file) = map (\<lambda>i. 5 * 2 ^ i) as"
  using assms
proof (induction as arbitrary: local_file)
  case Nil
  then show ?case by simp
next
  case (Cons a as)
  show ?case
  proof (cases "fst (attempt_once (env a) local_file)")
    case Success
    from Cons.prems(1) show ?thesis unfolding run_attempts_success [where env = env and a = a, OF Success] by simp
  next
    case Abort
    from Cons.prems(2) Abort show ?thesis unfolding run_attempts_abort [where env = env and a = a, OF Abort] by simp
  next
    case Retry
    note r = run_attempts_retry [where env = env and a = a and rest = as, OF Retry]
    from Cons.prems have
      "\<not> success (run_attempts env as (fst (snd (attempt_once (env a) local_file))))"
      "\<forall>t\<in>set (attempts (run_attempts env as (fst (snd (attempt_once (env a) local_file))))). fst t \<noteq> Abort"
      unfolding r by simp_all
    from Cons.IH [OF this] show ?thesis unfolding r by simp
  qed
qed

text \<open>
  Claim C4. With \<open>k\<close> the size of the local file when an attempt starts (0 when there is no
  file): every GET of the attempt carries \<^verbatim>\<open>Range: bytes=k-\<close> when \<open>k > 0\<close> and no range
  header when \<open>k = 0\<close>; a known total with \<open>k \<ge> total\<close> ends the attempt with success after
  the HEAD request alone, the file untouched; otherwise, when the probe returns, the GET is
  sent. A 200 response writes the body from offset 0, a 206 response appends it to the
  bytes on disk. An attempt that is retried hands the file as it left it to the next
  attempt, whose \<open>k\<close> is that file's size.
\<close>

theorem resume_from_file_size:
  "set (snd (snd (attempt_once env local_file)))
     \<subseteq> {Head, Get (if file_size local_file > 0 then Some (file_size local_file) else None)}
   \<and> (probe (env_head env) = Inr total_size \<and> 0 < total_size
        \<and> total_size \<le> int (file_size local_file) \<longrightarrow>
      attempt_once env local_file = (Success, local_file, [Head]))
   \<and> (probe (env_head env) = Inr total_size
        \<and> \<not> (0 < total_size \<and> total_size \<le> int (file_size local_file)) \<longrightarrow>
      snd (snd (attempt_once env local_file)) =
        [Head, Get (if file_size local_file > 0 then Some (file_size local_file) else None)])
   \<and> (probe (env_head env) = Inr total_size
        \<and> \<not> (0 < total_size \<and> total_size \<le> int (file_size local_file))
        \<and> env_get env = GetResponse status_code content_length chunks stream_end
        \<and> (status_code = 200 \<or> status_code = 206)
        \<and> update_total total_size content_length (if status_code = 200 then 0 else file_size local_file)
            = Inr total_size'
        \<and> \<not> env_open_fails env \<longrightarrow>
      fst (snd (attempt_once env local_file)) =
        Some ((if status_code = 200 then [] else (case local_file of None \<Rightarrow> [] | Some bytes \<Rightarrow> bytes))
              @ received chunks))
   \<and> (fst (attempt_once (net a) start_file) = Retry \<longrightarrow>
      attempts (run_attempts net (a # rest) start_file) =
        attempt_once (net a) start_file #
        attempts (run_attempts net rest (fst (snd (attempt_once (net a) start_file)))))"
proof (intro conjI impI)
  show "set (snd (snd (attempt_once env local_file)))
     \<subseteq> {Head, Get (if file_size local_file > 0 then Some (file_size local_file) else None)}"
    using attempt_once_requests [of env local_file] by auto
next
  assume "probe (env_head env) = Inr total_size \<and> 0 < total_size
        \<and> total_size \<le> int (file_size local_file)"
  then show "attempt_once env local_file = (Success, local_file, [Head])"
    by (simp add: attempt_once_complete)
next
  assume "probe (env_head env) = Inr total_size
        \<and> \<not> (0 < total_size \<and> total_size \<le> int (file_size local_file))"
  then show "snd (snd (attempt_once env local_file)) =
        [Head, Get (if file_size local_file > 0 then Some (file_size local_file) else None)]"
    using attempt_once_get [of env total_size local_file] by blast
next
  assume a: "probe (env_head env) = Inr total_size
        \<and> \<not> (0 < total_size \<and> total_size \<le> int (file_size local_file))
        \<and> env_get env = GetResponse status_code content_length chunks stream_end
        \<and> (status_code = 200 \<or> status_code = 206)
        \<and> update_total total_size content_length (if status_code = 200 then 0 else file_size local_file)
            = Inr total_size'
        \<and> \<not> env_open_fails env"
  then have "\<not> (400 \<le> status_code \<and> status_code < 600)" by auto
  with a show "fst (snd (attempt_once env local_file)) =
        Some ((if status_code = 200 then [] else (case local_file of None \<Rightarrow> [] | Some bytes \<Rightarrow> bytes))
              @ received chunks)"
    using attempt_once_written [of env total_size local_file status_code content_length chunks stream_end total_size']
    by blast
next
  assume "fst (attempt_once (net a) start_file) = Retry"
  then show "attempts (run_attempts net (a # rest) start_file) =
        attempt_once (net a) start_file #
        attempts (run_attempts net rest (fst (snd (attempt_once (net a) start_file))))"
    by (simp add: Let_def)
qed

theorem resume_from_file_size_witness:
  "attempt_once (resume_env 1) (Some ''0123'') = (Success, Some ''0123456789'', [Head, Get (Some 4)])
   \<and> attempt_once (no_range_env 0) (Some ''0123'') = (Success, Some ''0123456789'', [Head, Get (Some 4)])
   \<and> attempt_once (no_range_env 0) None = (Success, Some ''0123456789'', [Head, Get None])
   \<and> attempt_once (no_range_env 0) (Some ''0123456789'') = (Success, Some ''0123456789'', [Head])
   \<and> attempts (run_attempts resume_env [0, 1] None) =
       [(Retry, Some ''0123'', [Head, Get None]), (Success, Some ''0123456789'', [Head, Get (Some 4)])]"
  using resume_from_file_size
      [of "resume_env 1" "Some ''0123''" 10 206 "Number 6" "[''4567'', ''89'']" None 10 resume_env 0 None "[1]"]
    resume_from_file_size
      [of "no_range_env 0" "Some ''0123''" 10 200 "Number 10" "[''0123456789'']" None 10 resume_env 0 None "[1]"]
    resume_from_file_size
      [of "no_range_env 0" "Some ''0123456789''" 10 200 "Number 10" "[''0123456789'']" None 10 resume_env 0 None "[1]"]
  by (simp add: resume_env_def no_range_env_def attempt_once_def probe_def update_total_def
        received_def stream_error_def file_size_def Let_def)

text \<open>
  Claim C5, as the code has it. An attempt that ends in \<open>Retry\<close> sleeps \<open>5 * 2 ^ attempt\<close> and
  is followed by the next attempt; an attempt that ends in \<open>Abort\<close> ends the loop at once,
  with failure and without sleeping. A RequestException or an error status of the HEAD
  request ends no attempt: the total is 0, unknown. An attempt ends in \<open>Retry\<close> when a
  built-in ConnectionError leaves the HEAD request, when the GET request raises a
  RequestException or a built-in ConnectionError, when the GET response has an error status
  (400 to 599), when the stream raises one of these two, and when the stream ends with the
  file shorter than the known total. It ends in \<open>Abort\<close> when another exception leaves the
  HEAD request, the GET request or the stream, when \<^verbatim>\<open>int()\<close> rejects a content-length that
  is read, and when the local file cannot be opened. When no attempt is aborted, failure is
  returned only after \<open>max_retries\<close> attempts, with a sleep of \<open>5 * 2 ^ i\<close> after attempt \<open>i\<close>.
\<close>

theorem backoff_then_next_attempt:
  "(fst (attempt_once (env a) local_file) = Retry \<longrightarrow>
      run_attempts env (a # rest) local_file =
        (run_attempts env rest (fst (snd (attempt_once (env a) local_file))))
          \<lparr>attempts := attempt_once (env a) local_file #
               attempts (run_attempts env rest (fst (snd (attempt_once (env a) local_file)))),
            sleeps := 5 * 2 ^ a #
               sleeps (run_attempts env rest (fst (snd (attempt_once (env a) local_file))))\<rparr>)
   \<and> (fst (attempt_once (env a) local_file) = Abort \<longrightarrow>
      run_attempts env (a # rest) local_file =
        \<lparr>success = False, final_file = fst (snd (attempt_once (env a) local_file)),
         attempts = [attempt_once (env a) local_file], sleeps = []\<rparr>)
   \<and> probe (HeadRaises RequestException) = Inr 0
   \<and> (400 \<le> head_status \<longrightarrow> probe (HeadResponse head_status head_length) = Inr 0)
   \<and> (env_head (env a) = HeadRaises BuiltinConnectionError \<longrightarrow>
        fst (attempt_once (env a) local_file) = Retry)
   \<and> (env_head (env a) = HeadRaises OtherError \<longrightarrow>
        fst (attempt_once (env a) local_file) = Abort)
   \<and> (env_head (env a) = HeadResponse head_status head_length \<and> head_status < 400
        \<and> (head_length = EmptyHeader \<or> head_length = NotANumber) \<longrightarrow>
        fst (attempt_once (env a) local_file) = Abort)
   \<and> (probe (env_head (env a)) = Inr total_size
        \<and> \<not> (0 < total_size \<and> total_size \<le> int (file_size local_file)) \<longrightarrow>
        (env_get (env a) = GetRaises RequestException \<longrightarrow>
           fst (attempt_once (env a) local_file) = Retry)
        \<and> (env_get (env a) = GetRaises BuiltinConnectionError \<longrightarrow>
           fst (attempt_once (env a) local_file) = Retry)
        \<and> (env_get (env a) = GetRaises OtherError \<longrightarrow>
           fst (attempt_once (env a) local_file) = Abort)
        \<and> (env_get (env a) = GetResponse status_code content_length chunks stream_end \<longrightarrow>
           (400 \<le> status_code \<and> status_code < 600 \<longrightarrow>
              fst (attempt_once (env a) local_file) = Retry)
           \<and> (\<not> (400 \<le> status_code \<and> status_code < 600) \<and> total_size = 0
                \<and> content_length = NotANumber \<longrightarrow>
              fst (attempt_once (env a) local_file) = Abort)
           \<and> (\<not> (400 \<le> status_code \<and> status_code < 600)
                \<and> update_total total_size content_length
                      (if status_code = 200 then 0 else file_size local_file) = Inr total_size' \<longrightarrow>
              (env_open_fails (env a) \<longrightarrow> fst (attempt_once (env a) local_file) = Abort)
              \<and> (\<not> env_open_fails (env a) \<longrightarrow>
                 (stream_error chunks stream_end = Some RequestException \<longrightarrow>
                    fst (attempt_once (env a) local_file) = Retry)
                 \<and> (stream_error chunks stream_end = Some BuiltinConnectionError \<longrightarrow>
                    fst (attempt_once (env a) local_file) = Retry)
                 \<and> (stream_error chunks stream_end = Some OtherError \<longrightarrow>
                    fst (attempt_once (env a) local_file) = Abort)
                 \<and> (stream_error chunks stream_end = None \<and> 0 < total_size'
                      \<and> int (file_size (fst (snd (attempt_once (env a) local_file)))) < total_size' \<longrightarrow>
                    fst (attempt_once (env a) local_file) = Retry)))))
   \<and> (\<not> success (download_file env max_retries start_file)
        \<and> (\<forall>t\<in>set (attempts (download_file env max_retries start_file)). fst t \<noteq> Abort) \<longrightarrow>
      length (attempts (download_file env max_retries start_file)) = nat max_retries
      \<and> sleeps (download_file env max_retries start_file) = map (\<lambda>i. 5 * 2 ^ i) [0..<nat max_retries])"
proof -
  have loop_retry: "fst (attempt_once (env a) local_file) = Retry \<longrightarrow>
      run_attempts env (a # rest) local_file =
        (run_attempts env rest (fst (snd (attempt_once (env a) local_file))))
          \<lparr>attempts := attempt_once (env a) local_file #
               attempts (run_attempts env rest (fst (snd (attempt_once (env a) local_file)))),
            sleeps := 5 * 2 ^ a #
               sleeps (run_attempts env rest (fst (snd (attempt_once (env a) local_file))))\<rparr>"
    by (simp add: Let_def)
  have loop_abort: "fst (attempt_once (env a) local_file) = Abort \<longrightarrow>
      run_attempts env (a # rest) local_file =
        \<lparr>success = False, final_file = fst (snd (attempt_once (env a) local_file)),
         attempts = [attempt_once (env a) local_file], sleeps = []\<rparr>"
    by (simp add: Let_def)
  have p1: "probe (HeadRaises RequestException) = Inr 0" by (simp add: probe_def)
  have p2: "400 \<le> head_status \<longrightarrow> probe (HeadResponse head_status head_length) = Inr 0"
    by (simp add: probe_def)
  have h1: "env_head (env a) = HeadRaises BuiltinConnectionError \<longrightarrow>
        fst (attempt_once (env a) local_file) = Retry"
    by (simp add: attempt_once_def probe_def Let_def)
  have h2: "env_head (env a) = HeadRaises OtherError \<longrightarrow>
        fst (attempt_once (env a) local_file) = Abort"
    by (simp add: attempt_once_def probe_def Let_def)
  have h3: "env_head (env a) = HeadResponse head_status head_length \<and> head_status < 400
        \<and> (head_length = EmptyHeader \<or> head_length = NotANumber) \<longrightarrow>
        fst (attempt_once (env a) local_file) = Abort"
    by (auto simp: attempt_once_def probe_def Let_def)
  have get_stage: "(env_get (env a) = GetRaises RequestException \<longrightarrow>
           fst (attempt_once (env a) local_file) = Retry)
        \<and> (env_get (env a) = GetRaises BuiltinConnectionError \<longrightarrow>
           fst (attempt_once (env a) local_file) = Retry)
        \<and> (env_get (env a) = GetRaises OtherError \<longrightarrow>
           fst (attempt_once (env a) local_file) = Abort)
        \<and> (env_get (env a) = GetResponse status_code content_length chunks stream_end \<longrightarrow>
           (400 \<le> status_code \<and> status_code < 600 \<longrightarrow>
              fst (attempt_once (env a) local_file) = Retry)
           \<and> (\<not> (400 \<le> status_code \<and> status_code < 600) \<and> total_size = 0
                \<and> content_length = NotANumber \<longrightarrow>
              fst (attempt_once (env a) local_file) = Abort)
           \<and> (\<not> (400 \<le> status_code \<and> status_code < 600)
                \<and> update_total total_size content_length
                      (if status_code = 200 then 0 else file_size local_file) = Inr total_size' \<longrightarrow>
              (env_open_fails (env a) \<longrightarrow> fst (attempt_once (env a) local_file) = Abort)
              \<and> (\<not> env_open_fails (env a) \<longrightarrow>
                 (stream_error chunks stream_end = Some RequestException \<longrightarrow>
                    fst (attempt_once (env a) local_file) = Retry)
                 \<and> (stream_error chunks stream_end = Some BuiltinConnectionError \<longrightarrow>
                    fst (attempt_once (env a) local_file) = Retry)
                 \<and> (stream_error chunks stream_end = Some OtherError \<longrightarrow>
                    fst (attempt_once (env a) local_file) = Abort)
                 \<and> (stream_error chunks stream_end = None \<and> 0 < total_size'
                      \<and> int (file_size (fst (snd (attempt_once (env a) local_file)))) < total_size' \<longrightarrow>
                    fst (attempt_once (env a) local_file) = Retry))))"
    if pr: "probe (env_head (env a)) = Inr total_size"
      and nc: "\<not> (0 < total_size \<and> total_size \<le> int (file_size local_file))"
  proof -
    have c: "(0 < total_size \<and> total_size \<le> int (file_size local_file)) = False"
      using nc by simp
    have raises: "env_get (env a) = GetRaises e \<Longrightarrow> fst (attempt_once (env a) local_file) = handler e" for e
      unfolding attempt_once_def Let_def pr sum.case c if_False by simp
    have status: "env_get (env a) = GetResponse status_code content_length chunks stream_end \<Longrightarrow>
        400 \<le> status_code \<and> status_code < 600 \<Longrightarrow> fst (attempt_once (env a) local_file) = Retry"
      unfolding attempt_once_def Let_def pr sum.case c if_False by simp
    have badlen: "env_get (env a) = GetResponse status_code content_length chunks stream_end \<Longrightarrow>
        \<not> (400 \<le> status_code \<and> status_code < 600) \<Longrightarrow> total_size = 0 \<Longrightarrow>
        content_length = NotANumber \<Longrightarrow> fst (attempt_once (env a) local_file) = Abort"
      unfolding attempt_once_def Let_def pr sum.case c if_False by (simp add: update_total_def)
    have openf: "env_get (env a) = GetResponse status_code content_length chunks stream_end \<Longrightarrow>
        \<not> (400 \<le> status_code \<and> status_code < 600) \<Longrightarrow>
        update_total total_size content_length
          (if status_code = 200 then 0 else file_size local_file) = Inr total_size' \<Longrightarrow>
        env_open_fails (env a) \<Longrightarrow> fst (attempt_once (env a) local_file) = Abort"
    proof -
      assume g: "env_get (env a) = GetResponse status_code content_length chunks stream_end"
        and s: "\<not> (400 \<le> status_code \<and> status_code < 600)"
        and u: "update_total total_size content_length
          (if status_code = 200 then 0 else file_size local_file) = Inr total_size'"
        and o: "env_open_fails (env a)"
      have s': "(400 \<le> status_code \<and> status_code < 600) = False" using s by simp
      show ?thesis
        unfolding attempt_once_def Let_def pr g sum.case get_outcome.case c s' if_False u
        using o by simp
    qed
    have resp: "env_get (env a) = GetResponse status_code content_length chunks stream_end \<Longrightarrow>
        \<not> (400 \<le> status_code \<and> status_code < 600) \<Longrightarrow>
        update_total total_size content_length
          (if status_code = 200 then 0 else file_size local_file) = Inr total_size' \<Longrightarrow>
        \<not> env_open_fails (env a) \<Longrightarrow>
        attempt_once (env a) local_file =
           (case stream_error chunks stream_end of
              Some e \<Rightarrow> handler e
            | None \<Rightarrow>
                if 0 < total_size' \<and>
                   int (length ((if status_code = 200 then []
                                 else (case local_file of None \<Rightarrow> [] | Some bytes \<Rightarrow> bytes))
                                @ received chunks)) < total_size'
                then Retry else Success,
            Some ((if status_code = 200 then []
                   else (case local_file of None \<Rightarrow> [] | Some bytes \<Rightarrow> bytes))
                  @ received chunks),
            [Head, Get (if file_size local_file > 0 then Some (file_size local_file) else None)])"
      by (rule attempt_once_response [OF pr nc])
    show ?thesis
    proof (intro conjI impI)
      show "env_get (env a) = GetRaises RequestException \<Longrightarrow> fst (attempt_once (env a) local_file) = Retry"
        using raises [of RequestException] by simp
      show "env_get (env a) = GetRaises BuiltinConnectionError \<Longrightarrow> fst (attempt_once (env a) local_file) = Retry"
        using raises [of BuiltinConnectionError] by simp
      show "env_get (env a) = GetRaises OtherError \<Longrightarrow> fst (attempt_once (env a) local_file) = Abort"
        using raises [of OtherError] by simp
    next
      assume "env_get (env a) = GetResponse status_code content_length chunks stream_end"
        and "400 \<le> status_code \<and> status_code < 600"
      then show "fst (attempt_once (env a) local_file) = Retry" by (rule status)
    next
      assume "env_get (env a) = GetResponse status_code content_length chunks stream_end"
        and "\<not> (400 \<le> status_code \<and> status_code < 600) \<and> total_size = 0 \<and> content_length = NotANumber"
      then show "fst (attempt_once (env a) local_file) = Abort" using badlen by blast
    next
      assume "env_get (env a) = GetResponse status_code content_length chunks stream_end"
        and "\<not> (400 \<le> status_code \<and> status_code < 600)
                \<and> update_total total_size content_length
                      (if status_code = 200 then 0 else file_size local_file) = Inr total_size'"
        and "env_open_fails (env a)"
      then show "fst (attempt_once (env a) local_file) = Abort" using openf by blast
    next
      assume g: "env_get (env a) = GetResponse status_code content_length chunks stream_end"
        and su: "\<not> (400 \<le> status_code \<and> status_code < 600)
                \<and> update_total total_size content_length
                      (if status_code = 200 then 0 else file_size local_file) = Inr total_size'"
        and o: "\<not> env_open_fails (env a)"
      note r = resp [OF g conjunct1 [OF su] conjunct2 [OF su] o]
      show "stream_error chunks stream_end = Some RequestException \<Longrightarrow>
            fst (attempt_once (env a) local_file) = Retry"
        unfolding r by simp
      show "stream_error chunks stream_end = Some BuiltinConnectionError \<Longrightarrow>
            fst (attempt_once (env a) local_file) = Retry"
        unfolding r by simp
      show "stream_error chunks stream_end = Some OtherError \<Longrightarrow>
            fst (attempt_once (env a) local_file) = Abort"
        unfolding r by simp
      show "stream_error chunks stream_end = None \<and> 0 < total_size'
            \<and> int (file_size (fst (snd (attempt_once (env a) local_file)))) < total_size' \<Longrightarrow>
            fst (attempt_once (env a) local_file) = Retry"
        unfolding r by (simp add: file_size_def)
    qed
  qed
  have exhausted: "\<not> success (download_file env max_retries start_file)
        \<and> (\<forall>t\<in>set (attempts (download_file env max_retries start_file)). fst t \<noteq> Abort) \<longrightarrow>
      length (attempts (download_file env max_retries start_file)) = nat max_retries
      \<and> sleeps (download_file env max_retries start_file) = map (\<lambda>i. 5 * 2 ^ i) [0..<nat max_retries]"
    using run_attempts_exhausted [of env "[0..<nat max_retries]" start_file]
    by (simp add: download_file_def)
  from get_stage have gs: "probe (env_head (env a)) = Inr total_size
        \<and> \<not> (0 < total_size \<and> total_size \<le> int (file_size local_file)) \<longrightarrow>
        (env_get (env a) = GetRaises RequestException \<longrightarrow>
           fst (attempt_once (env a) local_file) = Retry)
        \<and> (env_get (env a) = GetRaises BuiltinConnectionError \<longrightarrow>
           fst (attempt_once (env a) local_file) = Retry)
        \<and> (env_get (env a) = GetRaises OtherError \<longrightarrow>
           fst (attempt_once (env a) local_file) = Abort)
        \<and> (env_get (env a) = GetResponse status_code content_length chunks stream_end \<longrightarrow>
           (400 \<le> status_code \<and> status_code < 600 \<longrightarrow>
              fst (attempt_once (env a) local_file) = Retry)
           \<and> (\<not> (400 \<le> status_code \<and> status_code < 600) \<and> total_size = 0
                \<and> content_length = NotANumber \<longrightarrow>
              fst (attempt_once (env a) local_file) = Abort)
           \<and> (\<not> (400 \<le> status_code \<and> status_code < 600)
                \<and> update_total total_size content_length
                      (if status_code = 200 then 0 else file_size local_file) = Inr total_size' \<longrightarrow>
              (env_open_fails (env a) \<longrightarrow> fst (attempt_once (env a) local_file) = Abort)
              \<and> (\<not> env_open_fails (env a) \<longrightarrow>
                 (stream_error chunks stream_end = Some RequestException \<longrightarrow>
                    fst (attempt_once (env a) local_file) = Retry)
                 \<and> (stream_error chunks stream_end = Some BuiltinConnectionError \<longrightarrow>
                    fst (attempt_once (env a) local_file) = Retry)
                 \<and> (stream_error chunks stream_end = Some OtherError \<longrightarrow>
                    fst (attempt_once (env a) local_file) = Abort)
                 \<and> (stream_error chunks stream_end = None \<and> 0 < total_size'
                      \<and> int (file_size (fst (snd (attempt_once (env a) local_file)))) < total_size' \<longrightarrow>
                    fst (attempt_once (env a) local_file) = Retry))))"
    by blast
  from loop_retry loop_abort p1 p2 h1 h2 h3 gs exhausted show ?thesis
    by (intro conjI)
qed

theorem backoff_then_next_attempt_witness:
  "\<not> success (download_file offline_env 3 None)
   \<and> length (attempts (download_file offline_env 3 None)) = 3
   \<and> sleeps (download_file offline_env 3 None) = [5, 10, 20]
   \<and> fst (attempt_once (server_error_env 0) None) = Retry
   \<and> \<not> success (download_file server_error_env 2 None)
   \<and> sleeps (download_file server_error_env 2 None) = [5, 10]"
  using backoff_then_next_attempt
    [where env = offline_env and a = 0 and local_file = None and rest = "[1, 2]"
       and total_size = 0 and head_status = 404 and head_length = NoHeader
       and status_code = 503 and content_length = NoHeader and chunks = "[]" and stream_end = None
       and total_size' = 0 and max_retries = 3 and start_file = None]
    backoff_then_next_attempt
    [where env = server_error_env and a = 0 and local_file = None and rest = "[1]"
       and total_size = 0 and head_status = 503 and head_length = NoHeader
       and status_code = 503 and content_length = NoHeader and chunks = "[]" and stream_end = None
       and total_size' = 0 and max_retries = 2 and start_file = None]
  by (simp add: download_file_def offline_env_def server_error_env_def attempt_once_def probe_def
        file_size_def Let_def upt_conv_Cons)

text \<open>
  The claim as stated fails: when the local file cannot be opened, the first of five
  attempts ends the call with failure and no sleep; and a HEAD request that fails in the
  network causes no sleep at all.
\<close>

theorem early_failure_counterexample:
  "\<not> success (download_file disk_error_env 5 None)
   \<and> length (attempts (download_file disk_error_env 5 None)) = 1
   \<and> sleeps (download_file disk_error_env 5 None) = []
   \<and> success (download_file probe_error_env 5 None)
   \<and> sleeps (download_file probe_error_env 5 None) = []"
  by (simp add: download_file_def disk_error_env_def probe_error_env_def attempt_once_def probe_def
        update_total_def received_def stream_error_def file_size_def Let_def upt_conv_Cons)

text \<open>
  Claim C6, as the code has it. When the stream ends without an exception and the total is
  known (positive), a local file shorter than the total makes the attempt a \<open>Retry\<close>: the
  loop sleeps and goes on; a local file of at least that size, also a longer one, is a
  success.
\<close>

theorem short_transfer_retried:
  assumes "probe (env_head (env a)) = Inr total_size"
    and "\<not> (0 < total_size \<and> total_size \<le> int (file_size local_file))"
    and "env_get (env a) = GetResponse status_code content_length chunks stream_end"
    and "\<not> (400 \<le> status_code \<and> status_code < 600)"
    and "update_total total_size content_length (if status_code = 200 then 0 else file_size local_file)
           = Inr total_size'"
    and "0 < total_size'"
    and "\<not> env_open_fails (env a)"
    and "stream_error chunks stream_end = None"
  shows "(int (file_size (fst (snd (attempt_once (env a) local_file)))) < total_size' \<longrightarrow>
            fst (attempt_once (env a) local_file) = Retry
            \<and> run_attempts env (a # rest) local_file =
                (run_attempts env rest (fst (snd (attempt_once (env a) local_file))))
                  \<lparr>attempts := attempt_once (env a) local_file #
                       attempts (run_attempts env rest (fst (snd (attempt_once (env a) local_file)))),
                    sleeps := 5 * 2 ^ a #
                       sleeps (run_attempts env rest (fst (snd (attempt_once (env a) local_file))))\<rparr>)
       \<and> (total_size' \<le> int (file_size (fst (snd (attempt_once (env a) local_file)))) \<longrightarrow>
            fst (attempt_once (env a) local_file) = Success
            \<and> success (run_attempts env (a # rest) local_file))"
proof -
  note r = attempt_once_result [OF assms(1-5) assms(7,8)]
  show ?thesis
  proof (intro conjI impI)
    assume lt: "int (file_size (fst (snd (attempt_once (env a) local_file)))) < total_size'"
    with r assms(6) show rt: "fst (attempt_once (env a) local_file) = Retry" by simp
    show "run_attempts env (a # rest) local_file =
                (run_attempts env rest (fst (snd (attempt_once (env a) local_file))))
                  \<lparr>attempts := attempt_once (env a) local_file #
                       attempts (run_attempts env rest (fst (snd (attempt_once (env a) local_file)))),
                    sleeps := 5 * 2 ^ a #
                       sleeps (run_attempts env rest (fst (snd (attempt_once (env a) local_file))))\<rparr>"
      by (rule run_attempts_retry [where env = env and a = a, OF rt])
  next
    assume ge: "total_size' \<le> int (file_size (fst (snd (attempt_once (env a) local_file))))"
    with r show sc: "fst (attempt_once (env a) local_file) = Success" by simp
    show "success (run_attempts env (a # rest) local_file)"
      unfolding run_attempts_success [where env = env and a = a, OF sc] by simp
  qed
qed

theorem short_transfer_retried_witness:
  "fst (attempt_once (resume_env 0) None) = Retry
   \<and> run_attempts resume_env [0, 1] None =
       \<lparr>success = True, final_file = Some ''0123456789'',
        attempts = [(Retry, Some ''0123'', [Head, Get None]),
                    (Success, Some ''0123456789'', [Head, Get (Some 4)])],
        sleeps = [5]\<rparr>"
  using short_transfer_retried
    [where env = resume_env and a = 0 and local_file = None and total_size = 10 and status_code = 200
       and content_length = "Number 10" and chunks = "[''0123'']" and stream_end = None
       and total_size' = 10 and rest = "[1]"]
  by (simp add: resume_env_def attempt_once_def probe_def update_total_def received_def
        stream_error_def file_size_def Let_def)

text \<open>
  The claim as stated fails when the file ends up longer than the known total: the server
  announces 3 bytes and sends 5, and the attempt succeeds.
\<close>

theorem oversize_transfer_counterexample:
  "probe (env_head (oversize_env 0)) = Inr 3
   \<and> attempt_once (oversize_env 0) None = (Success, Some ''abcde'', [Head, Get None])
   \<and> download_file oversize_env 5 None =
       \<lparr>success = True, final_file = Some ''abcde'',
        attempts = [(Success, Some ''abcde'', [Head, Get None])], sleeps = []\<rparr>"
  by (simp add: download_file_def oversize_env_def attempt_once_def probe_def update_total_def
        received_def stream_error_def file_size_def Let_def upt_conv_Cons)

end
